theory Spec2Isabelle
  imports Main
begin

section \<open>CodeSlim: the tree rewriter and the code generators of codeslim/codegen.py\<close>

text \<open>
  The development embeds \<^verbatim>\<open>src/codeslim/codegen.py\<close>: the generic \<^verbatim>\<open>Rewriter\<close>
  (a \<^verbatim>\<open>NodeTransformer\<close> with a handler table and pre/post hooks), \<^verbatim>\<open>ClassMerging\<close>,
  and the two generators \<^verbatim>\<open>FileLevelCodeGenerator\<close> and \<^verbatim>\<open>SegmentCodeGenerator\<close>.

  Python objects are modelled as values. An exception is a value \<open>Inl e\<close> of the result
  type \<open>error + 'a\<close>. The attributes of \<^verbatim>\<open>self\<close> that a method reads or assigns are
  an explicit state that the method takes and returns. A node that a method mutates in
  place and returns is the node the model returns.
\<close>

subsection \<open>Python values and syntax trees\<close>

text \<open>
  A node of Python's \<^verbatim>\<open>ast\<close> module is an object with a class name and named fields.
  A field holds a plain value, a node, or a list whose items are nodes or plain values
  (\<^verbatim>\<open>ClassDef.body\<close> is a list of nodes, \<^verbatim>\<open>ImportFrom.module\<close> a string or
  \<^verbatim>\<open>None\<close>, \<^verbatim>\<open>ImportFrom.level\<close> an integer). An attribute added at run time, such as
  the \<^verbatim>\<open>is_target\<close> mark the parser puts on an \<^verbatim>\<open>ImportFrom\<close> node, is one more field.
\<close>

datatype node = Node (cls: string) (node_fields: "field list")
  and field = Field (fname: string) (fval: pyval)
  and pyval = PNone | PBool bool | PInt int | PStr string | PNode node | PList "pyval list"

datatype error =
    AttributeError
  | KeyError
  | IndexError
  | TypeError
  | ValueError
  | RuntimeError string
  | Raised string

text \<open>\<^verbatim>\<open>REMOVE_NODE = None\<close>: the deletion sentinel is \<open>None :: node option\<close>.\<close>

abbreviation REMOVE_NODE :: "node option" where
  "REMOVE_NODE \<equiv> None"

fun find_field :: "field list \<Rightarrow> string \<Rightarrow> pyval option" where
  "find_field [] a = None"
| "find_field (Field f v # fs) a = (if f = a then Some v else find_field fs a)"

fun set_field :: "field list \<Rightarrow> string \<Rightarrow> pyval \<Rightarrow> field list" where
  "set_field [] a v = [Field a v]"
| "set_field (Field f w # fs) a v =
     (if f = a then Field f v # fs else Field f w # set_field fs a v)"

text \<open>\<^verbatim>\<open>getattr\<close>, \<^verbatim>\<open>hasattr\<close> and attribute assignment. Reading a missing attribute
  raises \<^verbatim>\<open>AttributeError\<close>, which each caller below writes out.\<close>

definition getattr :: "node \<Rightarrow> string \<Rightarrow> pyval option" where
  "getattr n a = find_field (node_fields n) a"

definition hasattr :: "node \<Rightarrow> string \<Rightarrow> bool" where
  "hasattr n a = (getattr n a \<noteq> None)"

definition setattr :: "node \<Rightarrow> string \<Rightarrow> pyval \<Rightarrow> node" where
  "setattr n a v = Node (cls n) (set_field (node_fields n) a v)"

text \<open>Python's truth value of an object (\<^verbatim>\<open>x or y\<close>).\<close>

fun truthy :: "pyval \<Rightarrow> bool" where
  "truthy PNone = False"
| "truthy (PBool b) = b"
| "truthy (PInt i) = (i \<noteq> 0)"
| "truthy (PStr s) = (s \<noteq> [])"
| "truthy (PNode n) = True"
| "truthy (PList xs) = (xs \<noteq> [])"

text \<open>\<^verbatim>\<open>x in names\<close> for a list of strings, and \<^verbatim>\<open>d[x]\<close> / \<^verbatim>\<open>x in d\<close> for a
  dictionary with string keys: a value that is not a string is no member.\<close>

fun in_names :: "pyval \<Rightarrow> string list \<Rightarrow> bool" where
  "in_names (PStr s) names = (s \<in> set names)"
| "in_names v names = False"

fun lookup :: "(string \<times> 'v) list \<Rightarrow> pyval \<Rightarrow> 'v option" where
  "lookup d (PStr s) = map_of d s"
| "lookup d v = None"

text \<open>A dictionary is an association list in insertion order. \<^verbatim>\<open>d[k] = v\<close> replaces the
  value of an existing key in place and appends a new key.\<close>

fun dict_set :: "('k \<times> 'v) list \<Rightarrow> 'k \<Rightarrow> 'v \<Rightarrow> ('k \<times> 'v) list" where
  "dict_set [] k v = [(k, v)]"
| "dict_set ((k', v') # d) k v = (if k' = k then (k', v) # d else (k', v') # dict_set d k v)"

text \<open>\<^verbatim>\<open>d[k]\<close> on a \<^verbatim>\<open>defaultdict\<close> whose default is \<open>dflt\<close>.\<close>

definition dict_get_default :: "('k \<times> 'v) list \<Rightarrow> 'k \<Rightarrow> 'v \<Rightarrow> 'v" where
  "dict_get_default d k dflt = (case map_of d k of None \<Rightarrow> dflt | Some v \<Rightarrow> v)"

text \<open>\<^verbatim>\<open>s.split(sep)\<close> for a one-character separator: never an empty list.\<close>

fun split_on :: "char \<Rightarrow> string \<Rightarrow> string list" where
  "split_on sep [] = [[]]"
| "split_on sep (c # cs) =
     (if c = sep then [] # split_on sep cs
      else (case split_on sep cs of [] \<Rightarrow> [[c]] | w # ws \<Rightarrow> (c # w) # ws))"

text \<open>\<^verbatim>\<open>os.path.basename\<close> and \<^verbatim>\<open>os.path.join\<close> of two parts (POSIX).\<close>

definition basename :: "string \<Rightarrow> string" where
  "basename p = last (split_on (CHR ''/'') p)"

definition join :: "string \<Rightarrow> string \<Rightarrow> string" where
  "join a b =
     (if b \<noteq> [] \<and> hd b = CHR ''/'' then b
      else if a = [] \<or> last a = CHR ''/'' then a @ b
      else a @ ''/'' @ b)"

subsection \<open>The files of the output directory\<close>

text \<open>The file system maps a path to the text of the file. \<^verbatim>\<open>astor.to_source\<close>, the
  printer, is a parameter \<open>to_source\<close> of the functions that write a tree.\<close>

type_synonym files = "string \<rightharpoonup> string"

definition CODEGEN_PREFIX :: string where
  "CODEGEN_PREFIX = ''# Generated by CodeSlim'' @ [CHR 0x0A]"

definition is_file_exist :: "files \<Rightarrow> string \<Rightarrow> string \<Rightarrow> bool" where
  "is_file_exist fs dir filename = (fs (join dir filename) \<noteq> None)"

definition generate_from_str :: "string \<Rightarrow> string list option \<Rightarrow> files \<Rightarrow> files" where
  "generate_from_str filename contends fs =
     fs(filename \<mapsto> CODEGEN_PREFIX @ (case contends of None \<Rightarrow> [] | Some cs \<Rightarrow> concat cs))"

definition generate_from_ast :: "(node \<Rightarrow> string) \<Rightarrow> string \<Rightarrow> node \<Rightarrow> files \<Rightarrow> files" where
  "generate_from_ast to_source filename t fs = fs(filename \<mapsto> CODEGEN_PREFIX @ to_source t)"

definition generate_init :: "string \<Rightarrow> bool \<Rightarrow> files \<Rightarrow> error + files" where
  "generate_init target_path force fs =
     (if \<not> force \<and> is_file_exist fs target_path ''__init__.py''
      then Inl (RuntimeError ''__init__.py exists!'')
      else Inr (generate_from_str (join target_path ''__init__.py'') None fs))"

text \<open>\<^verbatim>\<open>shutil.copy\<close> into a directory writes the file of the same base name there; a
  source file that does not exist is an error of the copy.\<close>

definition copy_file :: "string \<Rightarrow> string \<Rightarrow> bool \<Rightarrow> files \<Rightarrow> error + files" where
  "copy_file source_file target_dir force fs =
     (if \<not> force \<and> is_file_exist fs target_dir (basename source_file)
      then Inl (RuntimeError (source_file @ '' exists!''))
      else (case fs source_file of
              None \<Rightarrow> Inl (Raised ''FileNotFoundError'')
            | Some text \<Rightarrow> Inr (fs(join target_dir (basename source_file) \<mapsto> text))))"

subsection \<open>The tree rewriter (class Rewriter)\<close>

text \<open>
  \<^verbatim>\<open>Rewriter(targets, pre_hooks, post_hooks)\<close> stores each target \<open>name \<mapsto> func\<close> as its
  attribute \<^verbatim>\<open>visit_name\<close> and keeps the two hook dictionaries. The handlers and hooks are
  bound methods of the object that owns the rewriter: in the model they take the state
  of that object and return the new one. A pre-hook is called for its effect only
  (\<^verbatim>\<open>self.pre_hooks[node_name](node)\<close>: what it returns is dropped); a handler and a
  post-hook return the node that replaces the visited one, or \<open>REMOVE_NODE\<close>.

  \<^verbatim>\<open>generic_visit\<close> is \<^verbatim>\<open>ast.NodeTransformer\<close>'s, of the standard library: for each
  field in order, a list has each node item visited and replaced by the result, an item
  whose result is \<^verbatim>\<open>None\<close> being left out and every other item kept as it is; a node
  field is visited and replaced by the result, or the attribute deleted when the result
  is \<^verbatim>\<open>None\<close>; any other field is kept. (A handler that returns a list, which
  \<^verbatim>\<open>NodeTransformer\<close> splices into the parent's list, is outside the model: no handler
  of this repository returns one. So are a target named \<^verbatim>\<open>Num\<close>, \<^verbatim>\<open>Str\<close> and the
  like, to which the library's \<^verbatim>\<open>visit_Constant\<close> redirects, and a node held by an
  attribute that is not among the \<^verbatim>\<open>_fields\<close> of its class, which the library does
  not walk.)

  Each function also returns the steps it took, in order: which pre-hook, handler,
  structural recursion and post-hook ran. The steps are not state of the program; the
  theorems about the order of a visit and about what is never visited read them.
\<close>

datatype step = PreHook string | Handler string | Generic string | PostHook string

type_synonym 's pre_hook = "node option \<Rightarrow> 's \<Rightarrow> error + 's"
type_synonym 's handler = "node \<Rightarrow> 's \<Rightarrow> error + node option \<times> 's"
type_synonym 's post_hook = "node option \<Rightarrow> 's \<Rightarrow> error + node option \<times> 's"

record 's Rewriter =
  targets :: "string \<rightharpoonup> 's handler"
  pre_hooks :: "string \<rightharpoonup> 's pre_hook"
  post_hooks :: "string \<rightharpoonup> 's post_hook"

text \<open>\<^verbatim>\<open>node.__class__.__name__\<close>; the class of \<^verbatim>\<open>None\<close> is \<^verbatim>\<open>NoneType\<close>.\<close>

definition type_name :: "node option \<Rightarrow> string" where
  "type_name x = (case x of None \<Rightarrow> ''NoneType'' | Some n \<Rightarrow> cls n)"

text \<open>\<^verbatim>\<open>if node_name in self.pre_hooks: self.pre_hooks[node_name](node)\<close>\<close>

definition run_pre_hook :: "'s Rewriter \<Rightarrow> node option \<Rightarrow> 's \<Rightarrow> error + 's \<times> step list" where
  "run_pre_hook rw x s =
     (case pre_hooks rw (type_name x) of
        None \<Rightarrow> Inr (s, [])
      | Some hook \<Rightarrow>
          (case hook x s of
             Inl e \<Rightarrow> Inl e
           | Inr s' \<Rightarrow> Inr (s', [PreHook (type_name x)])))"

text \<open>\<^verbatim>\<open>if node_name in self.post_hooks: node = self.post_hooks[node_name](node)\<close>, where
  \<^verbatim>\<open>node_name\<close> is still the class name of the node that was visited.\<close>

definition run_post_hook ::
  "'s Rewriter \<Rightarrow> string \<Rightarrow> node option \<Rightarrow> 's \<Rightarrow> error + node option \<times> 's \<times> step list" where
  "run_post_hook rw node_name r s =
     (case post_hooks rw node_name of
        None \<Rightarrow> Inr (r, s, [])
      | Some hook \<Rightarrow>
          (case hook r s of
             Inl e \<Rightarrow> Inl e
           | Inr (r', s') \<Rightarrow> Inr (r', s', [PostHook node_name])))"

function visit :: "'s Rewriter \<Rightarrow> node option \<Rightarrow> 's \<Rightarrow> error + node option \<times> 's \<times> step list"
  and generic_visit :: "'s Rewriter \<Rightarrow> node \<Rightarrow> 's \<Rightarrow> error + node \<times> 's \<times> step list"
  and visit_fields :: "'s Rewriter \<Rightarrow> field list \<Rightarrow> 's \<Rightarrow> error + field list \<times> 's \<times> step list"
  and visit_items :: "'s Rewriter \<Rightarrow> pyval list \<Rightarrow> 's \<Rightarrow> error + pyval list \<times> 's \<times> step list"
where
  "visit rw None s =
     (case run_pre_hook rw None s of
        Inl e \<Rightarrow> Inl e
      | Inr (s1, tr1) \<Rightarrow> Inr (REMOVE_NODE, s1, tr1))"
| "visit rw (Some n) s =
     (case run_pre_hook rw (Some n) s of
        Inl e \<Rightarrow> Inl e
      | Inr (s1, tr1) \<Rightarrow>
          (case (case targets rw (cls n) of
                   Some visitor \<Rightarrow>
                     (case visitor n s1 of
                        Inl e \<Rightarrow> Inl e
                      | Inr (r, s2) \<Rightarrow> Inr (r, s2, [Handler (cls n)]))
                 | None \<Rightarrow>
                     (case generic_visit rw n s1 of
                        Inl e \<Rightarrow> Inl e
                      | Inr (n', s2, tr2) \<Rightarrow> Inr (Some n', s2, Generic (cls n) # tr2))) of
             Inl e \<Rightarrow> Inl e
           | Inr (r, s2, tr2) \<Rightarrow>
               (case run_post_hook rw (cls n) r s2 of
                  Inl e \<Rightarrow> Inl e
                | Inr (r', s3, tr3) \<Rightarrow> Inr (r', s3, tr1 @ tr2 @ tr3))))"
| "generic_visit rw (Node c fs) s =
     (case visit_fields rw fs s of
        Inl e \<Rightarrow> Inl e
      | Inr (fs', s', tr) \<Rightarrow> Inr (Node c fs', s', tr))"
| "visit_fields rw [] s = Inr ([], s, [])"
| "visit_fields rw (Field f v # fs) s =
     (case v of
        PList old_value \<Rightarrow>
          (case visit_items rw old_value s of
             Inl e \<Rightarrow> Inl e
           | Inr (new_values, s1, tr1) \<Rightarrow>
               (case visit_fields rw fs s1 of
                  Inl e \<Rightarrow> Inl e
                | Inr (fs', s2, tr2) \<Rightarrow> Inr (Field f (PList new_values) # fs', s2, tr1 @ tr2)))
      | PNode old_value \<Rightarrow>
          (case visit rw (Some old_value) s of
             Inl e \<Rightarrow> Inl e
           | Inr (new_node, s1, tr1) \<Rightarrow>
               (case visit_fields rw fs s1 of
                  Inl e \<Rightarrow> Inl e
                | Inr (fs', s2, tr2) \<Rightarrow>
                    Inr ((case new_node of
                            None \<Rightarrow> fs'
                          | Some n' \<Rightarrow> Field f (PNode n') # fs'), s2, tr1 @ tr2)))
      | _ \<Rightarrow>
          (case visit_fields rw fs s of
             Inl e \<Rightarrow> Inl e
           | Inr (fs', s2, tr2) \<Rightarrow> Inr (Field f v # fs', s2, tr2)))"
| "visit_items rw [] s = Inr ([], s, [])"
| "visit_items rw (x # xs) s =
     (case x of
        PNode n \<Rightarrow>
          (case visit rw (Some n) s of
             Inl e \<Rightarrow> Inl e
           | Inr (r, s1, tr1) \<Rightarrow>
               (case visit_items rw xs s1 of
                  Inl e \<Rightarrow> Inl e
                | Inr (new_values, s2, tr2) \<Rightarrow>
                    Inr ((case r of
                            None \<Rightarrow> new_values
                          | Some n' \<Rightarrow> PNode n' # new_values), s2, tr1 @ tr2)))
      | _ \<Rightarrow>
          (case visit_items rw xs s of
             Inl e \<Rightarrow> Inl e
           | Inr (new_values, s2, tr2) \<Rightarrow> Inr (x # new_values, s2, tr2)))"
  by pat_completeness auto
termination
  by (relation "measure (\<lambda>a. case a of
        Inl (Inl (rw, x, s)) \<Rightarrow> (case x of None \<Rightarrow> 0 | Some n \<Rightarrow> 2 * size n + 1)
      | Inl (Inr (rw, n, s)) \<Rightarrow> 2 * size n
      | Inr (Inl (rw, fs, s)) \<Rightarrow> 2 * size_list size fs + 1
      | Inr (Inr (rw, xs, s)) \<Rightarrow> 2 * size_list size xs + 1)")
    auto

subsection \<open>What the parser provides\<close>

text \<open>
  The module \<^verbatim>\<open>codeslim/parse.py\<close> is not among the sources. What the generators read
  from a parser object is a field of the record: the file name, the tree, the dictionary
  \<^verbatim>\<open>_local_defs\<close> (name to definition, each with its node), the keys of the dictionary
  \<^verbatim>\<open>_calls\<close>, the dictionary \<^verbatim>\<open>_to_merge_classes\<close> (class name to base names) and the
  list \<^verbatim>\<open>get_target_import_names()\<close> returns. The top-level \<^verbatim>\<open>Parser\<close> gives the
  dictionary of the per-file parsers, keyed by file, and \<^verbatim>\<open>relations\<close>, which maps a
  file to the files it imports from.
\<close>

datatype DefType = Function | Class | Method

record Def =
  def_type :: DefType
  def_node :: node

record ASTParser =
  file_name :: string
  ast :: node
  local_defs :: "(string \<times> Def) list"
  calls :: "string list"
  to_merge_classes :: "(string \<times> string list) list"
  target_import_names :: "string list"

record Parser =
  get_parsers :: "(string \<times> ASTParser) list"
  relations :: "(string \<times> string list) list"

subsection \<open>Class merging\<close>

text \<open>
  \<^verbatim>\<open>_ClassVisitor(cls_node).methods\<close>: an \<^verbatim>\<open>ast.NodeVisitor\<close> whose
  \<^verbatim>\<open>visit_FunctionDef\<close> stores the node under its name and visits on. It walks every
  field of every node below \<open>cls_node\<close>, so the dictionary holds every
  \<^verbatim>\<open>FunctionDef\<close> of the class, nested ones too.
\<close>

fun ClassVisitor_visit :: "node \<Rightarrow> (pyval \<times> node) list \<Rightarrow> error + (pyval \<times> node) list"
  and ClassVisitor_fields :: "field list \<Rightarrow> (pyval \<times> node) list \<Rightarrow> error + (pyval \<times> node) list"
  and ClassVisitor_items :: "pyval list \<Rightarrow> (pyval \<times> node) list \<Rightarrow> error + (pyval \<times> node) list"
where
  "ClassVisitor_visit (Node c fs) methods =
     (if c = ''FunctionDef'' then
        (case find_field fs ''name'' of
           None \<Rightarrow> Inl AttributeError
         | Some name \<Rightarrow> ClassVisitor_fields fs (dict_set methods name (Node c fs)))
      else ClassVisitor_fields fs methods)"
| "ClassVisitor_fields [] methods = Inr methods"
| "ClassVisitor_fields (Field f v # fs) methods =
     (case v of
        PList items \<Rightarrow>
          (case ClassVisitor_items items methods of
             Inl e \<Rightarrow> Inl e
           | Inr methods' \<Rightarrow> ClassVisitor_fields fs methods')
      | PNode n \<Rightarrow>
          (case ClassVisitor_visit n methods of
             Inl e \<Rightarrow> Inl e
           | Inr methods' \<Rightarrow> ClassVisitor_fields fs methods')
      | _ \<Rightarrow> ClassVisitor_fields fs methods)"
| "ClassVisitor_items [] methods = Inr methods"
| "ClassVisitor_items (x # xs) methods =
     (case x of
        PNode n \<Rightarrow>
          (case ClassVisitor_visit n methods of
             Inl e \<Rightarrow> Inl e
           | Inr methods' \<Rightarrow> ClassVisitor_items xs methods')
      | _ \<Rightarrow> ClassVisitor_items xs methods)"

text \<open>The attributes of a \<^verbatim>\<open>ClassMerging\<close> object. \<open>cls_node\<close> is the node of the class
  being merged, which \<^verbatim>\<open>merge\<close> mutates; \<open>methods\<close> is computed once, by the
  constructor.\<close>

record ClassMerging =
  cm_parser :: ASTParser
  cm_base_parsers :: "(string \<times> ASTParser) list"
  cls_node :: node
  methods :: "(pyval \<times> node) list"
  cur_base :: "string option"

definition ClassMerging_init ::
  "ASTParser \<Rightarrow> (string \<times> ASTParser) list \<Rightarrow> pyval \<Rightarrow> error + ClassMerging" where
  "ClassMerging_init parser base_parsers class_name =
     (case lookup (local_defs parser) class_name of
        None \<Rightarrow> Inl KeyError
      | Some d \<Rightarrow>
          (case ClassVisitor_visit (def_node d) [] of
             Inl e \<Rightarrow> Inl e
           | Inr ms \<Rightarrow>
               Inr \<lparr>cm_parser = parser, cm_base_parsers = base_parsers,
                    cls_node = def_node d, methods = ms, cur_base = None\<rparr>))"

text \<open>\<^verbatim>\<open>_merge_methods\<close>: \<^verbatim>\<open>if node.name not in self.methods:
  self.cls_node.body.append(node)\<close>, then \<^verbatim>\<open>return node\<close>.\<close>

definition merge_methods :: "ClassMerging handler" where
  "merge_methods n cm =
     (case getattr n ''name'' of
        None \<Rightarrow> Inl AttributeError
      | Some name \<Rightarrow>
          (if map_of (methods cm) name = None then
             (case getattr (cls_node cm) ''body'' of
                Some (PList body) \<Rightarrow>
                  Inr (Some n, cm\<lparr>cls_node := setattr (cls_node cm) ''body'' (PList (body @ [PNode n]))\<rparr>)
              | _ \<Rightarrow> Inl AttributeError)
           else Inr (Some n, cm)))"

definition rewrite_name :: "ClassMerging handler" where
  "rewrite_name n cm = Inr (Some n, cm)"

definition ClassMerging_rewriter :: "ClassMerging Rewriter" where
  "ClassMerging_rewriter =
     \<lparr>targets = [''FunctionDef'' \<mapsto> merge_methods, ''Name'' \<mapsto> rewrite_name],
      pre_hooks = Map.empty, post_hooks = Map.empty\<rparr>"

text \<open>\<^verbatim>\<open>merge\<close>: for each base, in the order of the dictionary \<^verbatim>\<open>base_parsers\<close>, take
  the base's node from its parser, give the class the base's \<^verbatim>\<open>bases\<close>, and visit the
  base's node with the rewriter.\<close>

fun merge_bases :: "(string \<times> ASTParser) list \<Rightarrow> ClassMerging \<Rightarrow> error + ClassMerging" where
  "merge_bases [] cm = Inr cm"
| "merge_bases ((base_name, base_parser) # rest) cm =
     (case map_of (local_defs base_parser) base_name of
        None \<Rightarrow> Inl KeyError
      | Some d \<Rightarrow>
          (case getattr (def_node d) ''bases'' of
             None \<Rightarrow> Inl AttributeError
           | Some bases \<Rightarrow>
               (case visit ClassMerging_rewriter (Some (def_node d))
                       (cm\<lparr>cur_base := Some base_name,
                           cls_node := setattr (cls_node cm) ''bases'' bases\<rparr>) of
                  Inl e \<Rightarrow> Inl e
                | Inr (r, cm', tr) \<Rightarrow> merge_bases rest cm')))"

definition merge :: "ClassMerging \<Rightarrow> error + ClassMerging" where
  "merge cm = merge_bases (cm_base_parsers cm) cm"

subsection \<open>The generators\<close>

text \<open>
  \<^verbatim>\<open>SegmentCodeGenerator\<close> extends \<^verbatim>\<open>FileLevelCodeGenerator\<close> and overrides
  \<^verbatim>\<open>_build_rewriter\<close>, \<^verbatim>\<open>_preprocess\<close> and \<^verbatim>\<open>_postprocess\<close>; \<open>level\<close> says which
  class the object has. The record holds the attributes of the object. The parser
  objects are shared: \<^verbatim>\<open>self.cur_parser\<close> is the object stored in \<^verbatim>\<open>self.parsers\<close>
  under the current file, so \<open>cur_parser\<close> holds that key and a mutation of the parser
  is an update of \<open>parsers\<close>. \<open>base_parsers\<close> is \<open>None\<close> until the attribute is first
  assigned (by \<^verbatim>\<open>_classdef_hook\<close>); the attributes that \<^verbatim>\<open>_preprocess\<close> assigns before
  any method reads them start empty. The rewriter is built from the object's methods
  and is passed along with the state.
\<close>

datatype level = FileLevel | SegmentLevel

record CodeGenerator =
  target_dir :: string
  parsers :: "(string \<times> ASTParser) list"
  module_mapper :: "(string \<times> string) list"
  merge_level :: "int option"
  imports_info :: "(string \<times> string list) list"
  relation :: "(string \<times> string list) list"
  extern_used :: "string list"
  local_used :: "string list"
  class_merge_info :: "(string \<times> (string \<times> string) list) list"
  cur_parser :: "string option"
  base_parsers :: "(string \<times> ASTParser) list option"

text \<open>\<^verbatim>\<open>_get_imports_info\<close>: the reverse index of \<open>relation\<close>, a
  \<^verbatim>\<open>defaultdict(list)\<close>.\<close>

fun add_importer ::
  "string \<Rightarrow> string list \<Rightarrow> (string \<times> string list) list \<Rightarrow> (string \<times> string list) list" where
  "add_importer file [] extra_info = extra_info"
| "add_importer file (f # target_file) extra_info =
     add_importer file target_file
       (dict_set extra_info f (dict_get_default extra_info f [] @ [file]))"

fun get_imports_info_loop ::
  "(string \<times> string list) list \<Rightarrow> (string \<times> string list) list \<Rightarrow> (string \<times> string list) list" where
  "get_imports_info_loop [] extra_info = extra_info"
| "get_imports_info_loop ((file, target_file) # rest) extra_info =
     get_imports_info_loop rest (add_importer file target_file extra_info)"

definition get_imports_info :: "(string \<times> string list) list \<Rightarrow> (string \<times> string list) list" where
  "get_imports_info rel = get_imports_info_loop rel []"

text \<open>\<^verbatim>\<open>__init__\<close>. The call \<^verbatim>\<open>p.get_target_merge_class()\<close> on each parser, made when a
  merge level is given, belongs to the parser module: the parsers are taken as they are
  after it. \<^verbatim>\<open>_build_rewriter\<close> is below.\<close>

definition CodeGenerator_init ::
  "level \<Rightarrow> string \<Rightarrow> Parser \<Rightarrow> (string \<times> string) list option \<Rightarrow> int option \<Rightarrow> error + CodeGenerator" where
  "CodeGenerator_init lv dir parser mapper class_merge_level =
     (if lv = FileLevel \<and> class_merge_level \<noteq> None then Inl ValueError
      else Inr \<lparr>target_dir = dir, parsers = get_parsers parser,
                module_mapper = (case mapper of None \<Rightarrow> [] | Some m \<Rightarrow> m),
                merge_level = class_merge_level,
                imports_info = get_imports_info (relations parser),
                relation = relations parser,
                extern_used = [], local_used = [], class_merge_info = [],
                cur_parser = None, base_parsers = None\<rparr>)"

text \<open>\<^verbatim>\<open>rewrite_imports\<close>. A module that is not a string (\<^verbatim>\<open>from . import x\<close> has
  \<^verbatim>\<open>module = None\<close>) is no key of the mapper and has no \<^verbatim>\<open>split\<close>.\<close>

definition rewrite_imports :: "CodeGenerator handler" where
  "rewrite_imports n g =
     (if cls n = ''ImportFrom'' \<and> hasattr n ''is_target'' then
        (case getattr n ''module'' of
           None \<Rightarrow> Inl AttributeError
         | Some (PStr module_name) \<Rightarrow>
             (case map_of (module_mapper g) module_name of
                Some mapped \<Rightarrow> Inr (Some (setattr n ''module'' (PStr mapped)), g)
              | None \<Rightarrow>
                  Inr (Some (setattr (setattr n ''level'' (PInt 0)) ''module''
                               (PStr (last (split_on (CHR ''.'') module_name)))), g))
         | Some (PList xs) \<Rightarrow> Inl TypeError
         | Some v \<Rightarrow> Inl AttributeError)
      else Inr (Some n, g))"

definition FileLevel_build_rewriter ::
  "(string \<rightharpoonup> CodeGenerator handler) option \<Rightarrow> CodeGenerator Rewriter" where
  "FileLevel_build_rewriter custom_rewriter =
     (let rewrite_funcs = [''Import'' \<mapsto> rewrite_imports, ''ImportFrom'' \<mapsto> rewrite_imports]
      in \<lparr>targets = (case custom_rewriter of
                        None \<Rightarrow> rewrite_funcs
                      | Some custom \<Rightarrow> rewrite_funcs ++ custom),
           pre_hooks = Map.empty, post_hooks = Map.empty\<rparr>)"

text \<open>A mutation of the parser object stored under \<open>file\<close>.\<close>

definition update_parser :: "string \<Rightarrow> (ASTParser \<Rightarrow> ASTParser) \<Rightarrow> CodeGenerator \<Rightarrow> CodeGenerator" where
  "update_parser file f g =
     g\<lparr>parsers := map (\<lambda>(k, p). if k = file then (k, f p) else (k, p)) (parsers g)\<rparr>"

text \<open>\<^verbatim>\<open>_classdef_hook\<close>, the pre-hook of \<^verbatim>\<open>ClassDef\<close>. \<^verbatim>\<open>ClassMerging(...).merge()\<close>
  mutates the node \<^verbatim>\<open>self.cur_parser._local_defs[node.name].node\<close>; the model stores the
  merged node there. (Whether that node is the very object under visit is decided by the
  parser module; the tree under visit is a value here and is not changed by the hook.)
  What the hook returns is dropped by \<^verbatim>\<open>Rewriter.visit\<close>.\<close>

fun rewrite_parsers_of ::
  "(string \<times> ASTParser) list \<Rightarrow> (string \<times> string) list \<Rightarrow> error + (string \<times> ASTParser) list" where
  "rewrite_parsers_of ps [] = Inr []"
| "rewrite_parsers_of ps ((k, path) # info) =
     (case map_of ps path of
        None \<Rightarrow> Inl KeyError
      | Some p \<Rightarrow>
          (case rewrite_parsers_of ps info of
             Inl e \<Rightarrow> Inl e
           | Inr rest \<Rightarrow> Inr ((k, p) # rest)))"

definition store_def_node :: "pyval \<Rightarrow> node \<Rightarrow> ASTParser \<Rightarrow> ASTParser" where
  "store_def_node name c p =
     p\<lparr>local_defs := map (\<lambda>(k, d). if PStr k = name then (k, d\<lparr>def_node := c\<rparr>) else (k, d))
                          (local_defs p)\<rparr>"

definition classdef_hook :: "CodeGenerator pre_hook" where
  "classdef_hook x g =
     (case x of
        None \<Rightarrow> Inl AttributeError
      | Some n \<Rightarrow>
          (case getattr n ''name'' of
             None \<Rightarrow> Inl AttributeError
           | Some name \<Rightarrow>
               (case lookup (class_merge_info g) name of
                  None \<Rightarrow> Inr g
                | Some info \<Rightarrow>
                    (case rewrite_parsers_of (parsers g) info of
                       Inl e \<Rightarrow> Inl e
                     | Inr rewrite_parsers \<Rightarrow>
                         (case cur_parser g of
                            None \<Rightarrow> Inl AttributeError
                          | Some file \<Rightarrow>
                              (case map_of (parsers g) file of
                                 None \<Rightarrow> Inl KeyError
                               | Some parser \<Rightarrow>
                                   (case ClassMerging_init parser rewrite_parsers name of
                                      Inl e \<Rightarrow> Inl e
                                    | Inr cm \<Rightarrow>
                                        (case merge cm of
                                           Inl e \<Rightarrow> Inl e
                                         | Inr cm' \<Rightarrow>
                                             Inr (update_parser file
                                                    (store_def_node name (cls_node cm'))
                                                    (g\<lparr>base_parsers := Some rewrite_parsers\<rparr>))))))))))"

text \<open>\<^verbatim>\<open>rewrite_defs\<close>, the handler of \<^verbatim>\<open>FunctionDef\<close> and \<^verbatim>\<open>ClassDef\<close> at segment
  level.\<close>

definition rewrite_defs :: "CodeGenerator handler" where
  "rewrite_defs n g =
     (case getattr n ''name'' of
        None \<Rightarrow> Inl AttributeError
      | Some name \<Rightarrow>
          (if \<not> in_names name (extern_used g) \<and> \<not> in_names name (local_used g)
           then Inr (REMOVE_NODE, g)
           else Inr (Some n, g)))"

definition Segment_build_rewriter ::
  "(string \<rightharpoonup> CodeGenerator handler) option \<Rightarrow> CodeGenerator Rewriter" where
  "Segment_build_rewriter custom_rewriter =
     (let rewrite_funcs = [''Import'' \<mapsto> rewrite_imports, ''ImportFrom'' \<mapsto> rewrite_imports,
                           ''FunctionDef'' \<mapsto> rewrite_defs, ''ClassDef'' \<mapsto> rewrite_defs]
      in \<lparr>targets = (case custom_rewriter of
                        None \<Rightarrow> rewrite_funcs
                      | Some custom \<Rightarrow> rewrite_funcs ++ custom),
           pre_hooks = [''ClassDef'' \<mapsto> classdef_hook], post_hooks = Map.empty\<rparr>)"

definition build_rewriter ::
  "level \<Rightarrow> (string \<rightharpoonup> CodeGenerator handler) option \<Rightarrow> CodeGenerator Rewriter" where
  "build_rewriter lv custom_rewriter =
     (case lv of
        FileLevel \<Rightarrow> FileLevel_build_rewriter custom_rewriter
      | SegmentLevel \<Rightarrow> Segment_build_rewriter custom_rewriter)"

text \<open>\<^verbatim>\<open>_analyze_local_calls\<close>: the names of \<^verbatim>\<open>_calls\<close> that are local definitions.\<close>

definition analyze_local_calls :: "ASTParser \<Rightarrow> string list" where
  "analyze_local_calls parser =
     (if calls parser \<noteq> [] \<and> local_defs parser \<noteq> []
      then filter (\<lambda>name. map_of (local_defs parser) name \<noteq> None) (calls parser)
      else [])"

text \<open>\<^verbatim>\<open>_rewrite_class_imports\<close>, the handler of the postprocess pass.
  \<^verbatim>\<open>raise NotImplemented\<close> raises a \<^verbatim>\<open>TypeError\<close>, as \<^verbatim>\<open>NotImplemented\<close> is no
  exception.\<close>

definition rewrite_class_imports :: "CodeGenerator handler" where
  "rewrite_class_imports n g =
     (if cls n = ''ImportFrom'' then
        (case getattr n ''names'' of
           None \<Rightarrow> Inl AttributeError
         | Some (PList []) \<Rightarrow> Inl IndexError
         | Some (PList (PNode a # rest)) \<Rightarrow>
             (case getattr a ''asname'' of
                None \<Rightarrow> Inl AttributeError
              | Some asname \<Rightarrow>
                  (case (if truthy asname then Some asname else getattr a ''name'') of
                     None \<Rightarrow> Inl AttributeError
                   | Some name \<Rightarrow>
                       (case base_parsers g of
                          None \<Rightarrow> Inl AttributeError
                        | Some bp \<Rightarrow>
                            (if lookup bp name \<noteq> None then Inr (REMOVE_NODE, g)
                             else Inr (Some n, g)))))
         | Some (PList (v # rest)) \<Rightarrow> Inl AttributeError
         | Some v \<Rightarrow> Inl TypeError)
      else Inl TypeError)"

definition postprocess_rewriter :: "CodeGenerator Rewriter" where
  "postprocess_rewriter =
     \<lparr>targets = [''ImportFrom'' \<mapsto> rewrite_class_imports, ''Import'' \<mapsto> rewrite_class_imports],
      pre_hooks = Map.empty, post_hooks = Map.empty\<rparr>"

text \<open>\<^verbatim>\<open>_preprocess\<close> at segment level: the three nested loops that fill
  \<^verbatim>\<open>target_files\<close>, a \<^verbatim>\<open>defaultdict(OrderedDict)\<close>, and the loop that collects
  \<^verbatim>\<open>extern_uesd\<close>.\<close>

fun merge_info_bases ::
  "string \<Rightarrow> ASTParser \<Rightarrow> string \<Rightarrow> string list \<Rightarrow> (string \<times> (string \<times> string) list) list
     \<Rightarrow> (string \<times> (string \<times> string) list) list" where
  "merge_info_bases path p m [] target_files = target_files"
| "merge_info_bases path p m (base # bases) target_files =
     merge_info_bases path p m bases
       (if map_of (local_defs p) base \<noteq> None
        then dict_set target_files m (dict_set (dict_get_default target_files m []) base path)
        else target_files)"

fun merge_info_classes ::
  "string \<Rightarrow> ASTParser \<Rightarrow> (string \<times> string list) list \<Rightarrow> (string \<times> (string \<times> string) list) list
     \<Rightarrow> (string \<times> (string \<times> string) list) list" where
  "merge_info_classes path p [] target_files = target_files"
| "merge_info_classes path p ((m, bases) # merge_class) target_files =
     merge_info_classes path p merge_class (merge_info_bases path p m bases target_files)"

fun merge_info_paths ::
  "(string \<times> ASTParser) list \<Rightarrow> (string \<times> string list) list \<Rightarrow> string list
     \<Rightarrow> (string \<times> (string \<times> string) list) list
     \<Rightarrow> error + (string \<times> (string \<times> string) list) list" where
  "merge_info_paths ps merge_class [] target_files = Inr target_files"
| "merge_info_paths ps merge_class (path # paths) target_files =
     (case map_of ps path of
        None \<Rightarrow> Inl KeyError
      | Some p \<Rightarrow>
          merge_info_paths ps merge_class paths (merge_info_classes path p merge_class target_files))"

fun collect_extern_used ::
  "(string \<times> ASTParser) list \<Rightarrow> string list \<Rightarrow> string list \<Rightarrow> error + string list" where
  "collect_extern_used ps [] extern_uesd = Inr extern_uesd"
| "collect_extern_used ps (i # importers) extern_uesd =
     (case map_of ps i of
        None \<Rightarrow> Inl KeyError
      | Some p \<Rightarrow> collect_extern_used ps importers (extern_uesd @ target_import_names p))"

definition Segment_preprocess :: "string \<Rightarrow> ASTParser \<Rightarrow> CodeGenerator \<Rightarrow> error + CodeGenerator" where
  "Segment_preprocess file parser g =
     (case map_of (relation g) file of
        None \<Rightarrow> Inl KeyError
      | Some paths \<Rightarrow>
          (case merge_info_paths (parsers g) (to_merge_classes parser) paths [] of
             Inl e \<Rightarrow> Inl e
           | Inr target_files \<Rightarrow>
               (case collect_extern_used (parsers g) (dict_get_default (imports_info g) file []) [] of
                  Inl e \<Rightarrow> Inl e
                | Inr extern_uesd \<Rightarrow>
                    Inr (g\<lparr>extern_used := extern_uesd,
                           local_used := analyze_local_calls parser,
                           class_merge_info := target_files,
                           cur_parser := Some file\<rparr>))))"

text \<open>The in-place rewriting of a tree: after \<^verbatim>\<open>rewriter.visit(parser.ast)\<close>, whose result
  the callers drop, \<^verbatim>\<open>parser.ast\<close> is the root as the visit left it.\<close>

definition store_ast :: "string \<Rightarrow> node option \<Rightarrow> CodeGenerator \<Rightarrow> CodeGenerator" where
  "store_ast file r g =
     (case r of
        None \<Rightarrow> g
      | Some t \<Rightarrow> update_parser file (\<lambda>p. p\<lparr>ast := t\<rparr>) g)"

definition Segment_postprocess :: "CodeGenerator \<Rightarrow> error + CodeGenerator" where
  "Segment_postprocess g =
     (case cur_parser g of
        None \<Rightarrow> Inl AttributeError
      | Some file \<Rightarrow>
          (case map_of (parsers g) file of
             None \<Rightarrow> Inl KeyError
           | Some p \<Rightarrow>
               (case visit postprocess_rewriter (Some (ast p)) g of
                  Inl e \<Rightarrow> Inl e
                | Inr (r, g', tr) \<Rightarrow> Inr (store_ast file r g'))))"

text \<open>\<^verbatim>\<open>_preprocess\<close> and \<^verbatim>\<open>_postprocess\<close> as the class of the object dispatches them:
  \<^verbatim>\<open>CodeGenerator\<close>'s do nothing.\<close>

definition preprocess :: "level \<Rightarrow> string \<Rightarrow> ASTParser \<Rightarrow> CodeGenerator \<Rightarrow> error + CodeGenerator" where
  "preprocess lv file parser g =
     (case lv of FileLevel \<Rightarrow> Inr g | SegmentLevel \<Rightarrow> Segment_preprocess file parser g)"

definition postprocess :: "level \<Rightarrow> CodeGenerator \<Rightarrow> error + CodeGenerator" where
  "postprocess lv g =
     (case lv of FileLevel \<Rightarrow> Inr g | SegmentLevel \<Rightarrow> Segment_postprocess g)"

text \<open>The body of the loop of \<^verbatim>\<open>generate\<close> up to the write:
  \<^verbatim>\<open>self._preprocess(file, parser); self.rewriter.visit(parser.ast);
  self._postprocess()\<close>.\<close>

definition rewrite_file ::
  "level \<Rightarrow> CodeGenerator Rewriter \<Rightarrow> string \<Rightarrow> ASTParser \<Rightarrow> CodeGenerator \<Rightarrow> error + CodeGenerator" where
  "rewrite_file lv rw file parser g =
     (case preprocess lv file parser g of
        Inl e \<Rightarrow> Inl e
      | Inr g1 \<Rightarrow>
          (case visit rw (Some (ast parser)) g1 of
             Inl e \<Rightarrow> Inl e
           | Inr (r, g2, tr) \<Rightarrow> postprocess lv (store_ast file r g2)))"

text \<open>\<^verbatim>\<open>generate\<close>: the loop over \<^verbatim>\<open>self.parsers.items()\<close>. It runs inside
  \<^verbatim>\<open>cd(self.target_dir)\<close>, so the file written is \<open>join target_dir file_name\<close>
  (\<^verbatim>\<open>makedirs\<close> creates the directory and writes no file). No exception is caught: the
  first one ends the loop, and the result \<open>Inl\<close> keeps it together with the files as
  written so far; a run that completes returns the generator and the files. (Each key
  of the loop is a key of \<open>parsers\<close>, so a failed lookup is no case of the program.)\<close>

fun generate_loop ::
  "(node \<Rightarrow> string) \<Rightarrow> level \<Rightarrow> CodeGenerator Rewriter \<Rightarrow> string list \<Rightarrow> CodeGenerator \<Rightarrow> files
     \<Rightarrow> error \<times> files + CodeGenerator \<times> files" where
  "generate_loop to_source lv rw [] g fs = Inr (g, fs)"
| "generate_loop to_source lv rw (file # rest) g fs =
     (case map_of (parsers g) file of
        None \<Rightarrow> Inl (KeyError, fs)
      | Some parser \<Rightarrow>
          (if basename (file_name parser) = ''__init__.py''
           then generate_loop to_source lv rw rest g fs
           else (case rewrite_file lv rw file parser g of
                   Inl e \<Rightarrow> Inl (e, fs)
                 | Inr g' \<Rightarrow>
                     (case map_of (parsers g') file of
                        None \<Rightarrow> Inl (KeyError, fs)
                      | Some parser' \<Rightarrow>
                          generate_loop to_source lv rw rest g'
                            (generate_from_ast to_source
                               (join (target_dir g') (basename (file_name parser')))
                               (ast parser') fs)))))"

definition generate ::
  "(node \<Rightarrow> string) \<Rightarrow> level \<Rightarrow> CodeGenerator Rewriter \<Rightarrow> CodeGenerator \<Rightarrow> files
     \<Rightarrow> error \<times> files + CodeGenerator \<times> files" where
  "generate to_source lv rw g fs = generate_loop to_source lv rw (map fst (parsers g)) g fs"

subsection \<open>What the properties speak about\<close>

text \<open>The definitions of this part are not code of the program: they name what the
  properties below observe of a tree or of the state.\<close>

text \<open>A tree holds a plain \<^verbatim>\<open>import x\<close> statement where a traversal that stops at
  \<^verbatim>\<open>Import\<close> and \<^verbatim>\<open>ImportFrom\<close> nodes reaches it. (The children of an
  \<^verbatim>\<open>ImportFrom\<close> are \<^verbatim>\<open>alias\<close> nodes, never statements.)\<close>

fun has_import :: "node \<Rightarrow> bool"
  and fields_have_import :: "field list \<Rightarrow> bool"
  and items_have_import :: "pyval list \<Rightarrow> bool"
where
  "has_import (Node c fs) = (c = ''Import'' \<or> (c \<noteq> ''ImportFrom'' \<and> fields_have_import fs))"
| "fields_have_import [] = False"
| "fields_have_import (Field f v # fs) =
     ((case v of PList items \<Rightarrow> items_have_import items | PNode n \<Rightarrow> has_import n | _ \<Rightarrow> False)
      \<or> fields_have_import fs)"
| "items_have_import [] = False"
| "items_have_import (x # xs) =
     ((case x of PNode n \<Rightarrow> has_import n | _ \<Rightarrow> False) \<or> items_have_import xs)"

text \<open>A tree with the module and the level of every reachable \<^verbatim>\<open>ImportFrom\<close> node
  taken out: two trees with the same image differ in nothing but these two attributes of
  their \<^verbatim>\<open>from ... import\<close> statements.\<close>

fun strip_imports :: "node \<Rightarrow> node"
  and strip_fields :: "field list \<Rightarrow> field list"
  and strip_items :: "pyval list \<Rightarrow> pyval list"
where
  "strip_imports (Node c fs) =
     (if c = ''ImportFrom''
      then Node c (filter (\<lambda>f. fname f \<noteq> ''module'' \<and> fname f \<noteq> ''level'') fs)
      else Node c (strip_fields fs))"
| "strip_fields [] = []"
| "strip_fields (Field f v # fs) =
     Field f (case v of
                PList items \<Rightarrow> PList (strip_items items)
              | PNode n \<Rightarrow> PNode (strip_imports n)
              | _ \<Rightarrow> v) # strip_fields fs"
| "strip_items [] = []"
| "strip_items (x # xs) =
     (case x of PNode n \<Rightarrow> PNode (strip_imports n) | _ \<Rightarrow> x) # strip_items xs"


fun defs_in :: "pyval list \<Rightarrow> node list" where
  "defs_in [] = []"
| "defs_in (x # xs) =
     (case x of
        PNode n \<Rightarrow> (if cls n = ''FunctionDef'' \<or> cls n = ''ClassDef'' then n # defs_in xs else defs_in xs)
      | _ \<Rightarrow> defs_in xs)"




text \<open>A tree holds a \<^verbatim>\<open>from ... import\<close> statement.\<close>

fun has_import_from :: "node \<Rightarrow> bool"
  and fields_have_import_from :: "field list \<Rightarrow> bool"
  and items_have_import_from :: "pyval list \<Rightarrow> bool"
where
  "has_import_from (Node c fs) = (c = ''ImportFrom'' \<or> fields_have_import_from fs)"
| "fields_have_import_from [] = False"
| "fields_have_import_from (Field f v # fs) =
     ((case v of
         PList items \<Rightarrow> items_have_import_from items
       | PNode n \<Rightarrow> has_import_from n
       | _ \<Rightarrow> False)
      \<or> fields_have_import_from fs)"
| "items_have_import_from [] = False"
| "items_have_import_from (x # xs) =
     ((case x of PNode n \<Rightarrow> has_import_from n | _ \<Rightarrow> False) \<or> items_have_import_from xs)"

subsection \<open>Nodes as the parser builds them\<close>

text \<open>The node classes that the examples use, with the fields of Python's grammar in
  their order. \<open>is_target\<close> is the parser's mark on an \<^verbatim>\<open>ImportFrom\<close> that refers to a
  file of the corpus.\<close>

definition Alias :: "string \<Rightarrow> string option \<Rightarrow> node" where
  "Alias name asname =
     Node ''alias'' [Field ''name'' (PStr name),
                     Field ''asname'' (case asname of None \<Rightarrow> PNone | Some a \<Rightarrow> PStr a)]"

definition ImportFrom :: "pyval \<Rightarrow> node list \<Rightarrow> int \<Rightarrow> bool \<Rightarrow> node" where
  "ImportFrom module names level is_target =
     Node ''ImportFrom''
       ([Field ''module'' module, Field ''names'' (PList (map PNode names)),
         Field ''level'' (PInt level)] @
        (if is_target then [Field ''is_target'' (PBool True)] else []))"

definition Import :: "node list \<Rightarrow> node" where
  "Import names = Node ''Import'' [Field ''names'' (PList (map PNode names))]"

definition FunctionDef :: "string \<Rightarrow> node list \<Rightarrow> node" where
  "FunctionDef name body =
     Node ''FunctionDef''
       [Field ''name'' (PStr name), Field ''args'' (PNode (Node ''arguments'' [])),
        Field ''body'' (PList (map PNode body)), Field ''decorator_list'' (PList []),
        Field ''returns'' PNone]"

definition ClassDef :: "string \<Rightarrow> node list \<Rightarrow> node list \<Rightarrow> node" where
  "ClassDef name bases body =
     Node ''ClassDef''
       [Field ''name'' (PStr name), Field ''bases'' (PList (map PNode bases)),
        Field ''keywords'' (PList []), Field ''body'' (PList (map PNode body)),
        Field ''decorator_list'' (PList [])]"

definition Module :: "node list \<Rightarrow> node" where
  "Module body = Node ''Module'' [Field ''body'' (PList (map PNode body)), Field ''type_ignores'' (PList [])]"

definition Name :: "string \<Rightarrow> node" where
  "Name ident = Node ''Name'' [Field ''id'' (PStr ident), Field ''ctx'' (PNode (Node ''Load'' []))]"

definition Pass :: node where
  "Pass = Node ''Pass'' []"

text \<open>A generator whose module mapper is \<^verbatim>\<open>{"pkg.util": "util"}\<close>.\<close>

definition example_generator :: CodeGenerator where
  "example_generator =
     \<lparr>target_dir = ''out'', parsers = [], module_mapper = [(''pkg.util'', ''util'')],
      merge_level = None, imports_info = [], relation = [],
      extern_used = [], local_used = [], class_merge_info = [],
      cur_parser = None, base_parsers = None\<rparr>"


text \<open>A rewriter whose pre-hook, handler and post-hook of \<^verbatim>\<open>Pass\<close> each append their
  name to the state, a list; the post-hook replaces the result by the sentinel.\<close>

definition logging_rewriter :: "string list Rewriter" where
  "logging_rewriter =
     \<lparr>targets = [''Pass'' \<mapsto> (\<lambda>n s. Inr (Some n, s @ [''handler'']))],
      pre_hooks = [''Pass'' \<mapsto> (\<lambda>x s. Inr (s @ [''pre'']))],
      post_hooks = [''Pass'' \<mapsto> (\<lambda>r s. Inr (REMOVE_NODE, s @ [''post'']))]\<rparr>"


text \<open>A corpus of two files. \<^verbatim>\<open>a.py\<close> defines \<^verbatim>\<open>helper\<close>, \<^verbatim>\<open>local_fn\<close> and
  \<^verbatim>\<open>unused\<close> and calls \<^verbatim>\<open>local_fn\<close> and \<^verbatim>\<open>print\<close>; \<^verbatim>\<open>main.py\<close> is
  \<^verbatim>\<open>from pkg.a import helper\<close> followed by a definition of \<^verbatim>\<open>main\<close>.\<close>

definition a_py :: ASTParser where
  "a_py =
     \<lparr>file_name = ''/src/a.py'',
      ast = Module [FunctionDef ''helper'' [Pass], FunctionDef ''local_fn'' [Pass],
                    FunctionDef ''unused'' [Pass]],
      local_defs =
        [(''helper'', \<lparr>def_type = Function, def_node = FunctionDef ''helper'' [Pass]\<rparr>),
         (''local_fn'', \<lparr>def_type = Function, def_node = FunctionDef ''local_fn'' [Pass]\<rparr>),
         (''unused'', \<lparr>def_type = Function, def_node = FunctionDef ''unused'' [Pass]\<rparr>)],
      calls = [''local_fn'', ''print''],
      to_merge_classes = [],
      target_import_names = []\<rparr>"

definition main_py :: ASTParser where
  "main_py =
     \<lparr>file_name = ''/src/main.py'',
      ast = Module [ImportFrom (PStr ''pkg.a'') [Alias ''helper'' None] 0 True,
                    FunctionDef ''main'' [Pass]],
      local_defs = [(''main'', \<lparr>def_type = Function, def_node = FunctionDef ''main'' [Pass]\<rparr>)],
      calls = [''helper''],
      to_merge_classes = [],
      target_import_names = [''helper'']\<rparr>"

definition corpus :: Parser where
  "corpus =
     \<lparr>get_parsers = [(''/src/a.py'', a_py), (''/src/main.py'', main_py)],
      relations = [(''/src/a.py'', []), (''/src/main.py'', [''/src/a.py''])]\<rparr>"

text \<open>The generator that \<^verbatim>\<open>__init__\<close> builds for this corpus and the target \<^verbatim>\<open>out\<close>, and
  its state once \<^verbatim>\<open>_preprocess\<close> has run for \<^verbatim>\<open>a.py\<close>.\<close>

definition corpus_generator :: CodeGenerator where
  "corpus_generator =
     \<lparr>target_dir = ''out'', parsers = [(''/src/a.py'', a_py), (''/src/main.py'', main_py)],
      module_mapper = [], merge_level = None,
      imports_info = [(''/src/a.py'', [''/src/main.py''])],
      relation = [(''/src/a.py'', []), (''/src/main.py'', [''/src/a.py''])],
      extern_used = [], local_used = [], class_merge_info = [],
      cur_parser = None, base_parsers = None\<rparr>"


text \<open>A file that starts with \<^verbatim>\<open>import os\<close>, and a generator about to postprocess
  it.\<close>

definition tool_py :: ASTParser where
  "tool_py =
     \<lparr>file_name = ''/src/tool.py'',
      ast = Module [Import [Alias ''os'' None], FunctionDef ''run'' [Pass]],
      local_defs = [(''run'', \<lparr>def_type = Function, def_node = FunctionDef ''run'' [Pass]\<rparr>)],
      calls = [''run''],
      to_merge_classes = [],
      target_import_names = []\<rparr>"

definition tool_state :: CodeGenerator where
  "tool_state =
     \<lparr>target_dir = ''out'', parsers = [(''/src/tool.py'', tool_py)],
      module_mapper = [], merge_level = None, imports_info = [],
      relation = [(''/src/tool.py'', [])],
      extern_used = [], local_used = [''run''], class_merge_info = [],
      cur_parser = Some ''/src/tool.py'', base_parsers = None\<rparr>"

text \<open>A class \<^verbatim>\<open>Child(B1, B2)\<close> with one method of its own, and two bases that both
  define \<^verbatim>\<open>method1\<close>, with different bodies. \<^verbatim>\<open>Single(B1)\<close> has the one base, and
  \<^verbatim>\<open>Override(B1)\<close> defines \<^verbatim>\<open>method1\<close> itself.\<close>

definition B1_method1 :: node where
  "B1_method1 = FunctionDef ''method1'' [Node ''Return'' [Field ''value'' (PStr ''B1'')]]"

definition B2_method1 :: node where
  "B2_method1 = FunctionDef ''method1'' [Node ''Return'' [Field ''value'' (PStr ''B2'')]]"

definition own_method1 :: node where
  "own_method1 = FunctionDef ''method1'' [Node ''Return'' [Field ''value'' (PStr ''own'')]]"

definition bases_py :: ASTParser where
  "bases_py =
     \<lparr>file_name = ''/src/bases.py'',
      ast = Module [ClassDef ''B1'' [] [B1_method1], ClassDef ''B2'' [] [B2_method1]],
      local_defs =
        [(''B1'', \<lparr>def_type = Class, def_node = ClassDef ''B1'' [] [B1_method1]\<rparr>),
         (''B2'', \<lparr>def_type = Class, def_node = ClassDef ''B2'' [] [B2_method1]\<rparr>)],
      calls = [],
      to_merge_classes = [],
      target_import_names = []\<rparr>"

definition child_py :: ASTParser where
  "child_py =
     \<lparr>file_name = ''/src/child.py'',
      ast = Module [ClassDef ''Child'' [Name ''B1'', Name ''B2''] [FunctionDef ''own'' [Pass]]],
      local_defs =
        [(''Child'', \<lparr>def_type = Class,
                       def_node = ClassDef ''Child'' [Name ''B1'', Name ''B2'']
                                    [FunctionDef ''own'' [Pass]]\<rparr>),
         (''Single'', \<lparr>def_type = Class,
                        def_node = ClassDef ''Single'' [Name ''B1''] [FunctionDef ''own'' [Pass]]\<rparr>),
         (''Override'', \<lparr>def_type = Class,
                          def_node = ClassDef ''Override'' [Name ''B1''] [own_method1]\<rparr>)],
      calls = [],
      to_merge_classes = [(''Child'', [''B1'', ''B2''])],
      target_import_names = [''B1'', ''B2'']\<rparr>"

text \<open>A printer for the examples, and a handler that raises.\<close>

definition print_class :: "node \<Rightarrow> string" where
  "print_class t = cls t"

definition failing_handler :: "CodeGenerator handler" where
  "failing_handler n g = Inl (Raised ''handler failed'')"

text \<open>A generator for the three files \<^verbatim>\<open>a.py\<close>, \<^verbatim>\<open>main.py\<close> and \<^verbatim>\<open>tool.py\<close>, in this
  order.\<close>

definition three_files :: CodeGenerator where
  "three_files =
     \<lparr>target_dir = ''out'',
      parsers = [(''/src/a.py'', a_py), (''/src/main.py'', main_py), (''/src/tool.py'', tool_py)],
      module_mapper = [], merge_level = None,
      imports_info = [(''/src/a.py'', [''/src/main.py''])],
      relation = [(''/src/a.py'', []), (''/src/main.py'', [''/src/a.py'']), (''/src/tool.py'', [])],
      extern_used = [], local_used = [], class_merge_info = [],
      cur_parser = None, base_parsers = None\<rparr>"

text \<open>The file-level rewriter built with a custom handler for \<^verbatim>\<open>ImportFrom\<close> that
  raises.\<close>

definition failing_rewriter :: "CodeGenerator Rewriter" where
  "failing_rewriter = FileLevel_build_rewriter (Some [''ImportFrom'' \<mapsto> failing_handler])"

section \<open>Properties\<close>

subsection \<open>Attributes and strings\<close>





lemma cls_setattr: "cls (setattr n a v) = cls n"
  by (simp add: setattr_def)

lemma split_on_nonempty: "split_on sep s \<noteq> []"
  by (induction s) (auto split: list.splits)

lemma last_split_on_no_sep: "sep \<notin> set (last (split_on sep s))"
  by (induction s) (auto split: list.splits simp: split_on_nonempty)

text \<open>The last item of \<^verbatim>\<open>s.split(sep)\<close> is the part of \<open>s\<close> after its last separator,
  or all of \<open>s\<close> when it has none.\<close>

lemma split_on_Cons_other:
  "c \<noteq> sep \<Longrightarrow> split_on sep (c # cs) = (c # hd (split_on sep cs)) # tl (split_on sep cs)"
  using split_on_nonempty[of sep cs] by (cases "split_on sep cs") simp_all

lemma split_on_no_sep: "sep \<notin> set s \<Longrightarrow> split_on sep s = [s]"
  by (induction s) auto

lemma split_on_sep_tl: "sep \<in> set s \<Longrightarrow> tl (split_on sep s) \<noteq> []"
proof (induction s)
  case Nil
  then show ?case by simp
next
  case (Cons c cs)
  show ?case
  proof (cases "c = sep")
    case True
    then show ?thesis using split_on_nonempty[of sep cs] by simp
  next
    case False
    with Cons have "tl (split_on sep cs) \<noteq> []" by simp
    then show ?thesis using False by (simp add: split_on_Cons_other del: split_on.simps)
  qed
qed

lemma last_split_on_suffix:
  "\<exists>pre. s = pre @ last (split_on sep s) \<and> (pre = [] \<or> last pre = sep)"
proof (cases "sep \<in> set s")
  case False
  then have "last (split_on sep s) = s" by (simp add: split_on_no_sep)
  then show ?thesis by (metis append_Nil)
next
  case True
  then show ?thesis
  proof (induction s)
    case Nil
    then show ?case by simp
  next
    case (Cons c cs)
    show ?case
    proof (cases "sep \<in> set cs")
      case in_cs: True
      from Cons.IH[OF in_cs] obtain pre where
        p: "cs = pre @ last (split_on sep cs)" "pre = [] \<or> last pre = sep" by blast
      have tl: "tl (split_on sep cs) \<noteq> []" using in_cs by (rule split_on_sep_tl)
      have l: "last (split_on sep (c # cs)) = last (split_on sep cs)"
      proof (cases "c = sep")
        case True
        then show ?thesis using split_on_nonempty[of sep cs] by simp
      next
        case False
        have "last ((c # hd (split_on sep cs)) # tl (split_on sep cs)) = last (tl (split_on sep cs))"
          using tl by simp
        also have "\<dots> = last (split_on sep cs)"
          using tl by (cases "split_on sep cs") simp_all
        finally show ?thesis using False by (simp add: split_on_Cons_other del: split_on.simps)
      qed
      have "pre \<noteq> []"
      proof
        assume "pre = []"
        with p(1) have "cs = last (split_on sep cs)" by simp
        then have "sep \<notin> set cs" using last_split_on_no_sep[of sep cs] by simp
        with in_cs show False by simp
      qed
      then have "last (c # pre) = sep" using p(2) by simp
      moreover have "c # cs = (c # pre) @ last (split_on sep (c # cs))" using p(1) l by simp
      ultimately show ?thesis by blast
    next
      case False
      with Cons.prems have c: "c = sep" by simp
      have "last (split_on sep (c # cs)) = cs" using c False by (simp add: split_on_no_sep)
      then have "c # cs = [c] @ last (split_on sep (c # cs))" by simp
      moreover have "last [c] = sep" using c by simp
      ultimately show ?thesis by blast
    qed
  qed
qed

text \<open>The definitions that an evaluation of the examples unfolds.\<close>

lemmas ex_nodes = Module_def ClassDef_def FunctionDef_def Name_def Pass_def Alias_def
  ImportFrom_def Import_def B1_method1_def B2_method1_def own_method1_def

lemmas rw_simps = run_pre_hook_def run_post_hook_def type_name_def getattr_def setattr_def
  hasattr_def

lemmas file_level_simps = generate_def rewrite_file_def preprocess_def postprocess_def
  store_ast_def update_parser_def generate_from_ast_def FileLevel_build_rewriter_def
  rewrite_imports_def basename_def join_def

subsection \<open>The import rewriter\<close>



text \<open>
  C9. An import node that does not refer to a file of the corpus (any node that is no
  \<^verbatim>\<open>ImportFrom\<close>, so any plain \<^verbatim>\<open>Import\<close>, and any \<^verbatim>\<open>ImportFrom\<close> without the
  \<^verbatim>\<open>is_target\<close> mark) is returned by \<^verbatim>\<open>rewrite_imports\<close> as it is: module and level
  are unchanged, and so is the state.
\<close>

theorem rewrite_imports_not_target:
  assumes "\<not> (cls n = ''ImportFrom'' \<and> hasattr n ''is_target'')"
  shows "rewrite_imports n g = Inr (Some n, g)"
  using assms by (auto simp: rewrite_imports_def)

theorem rewrite_imports_not_target_witness:
  "rewrite_imports (Import [Alias ''os'' None]) example_generator
     = Inr (Some (Import [Alias ''os'' None]), example_generator) \<and>
   rewrite_imports (ImportFrom (PStr ''typing'') [Alias ''List'' None] 0 False) example_generator
     = Inr (Some (ImportFrom (PStr ''typing'') [Alias ''List'' None] 0 False), example_generator)"
proof -
  have h1: "\<not> (cls (Import [Alias ''os'' None]) = ''ImportFrom'' \<and>
                hasattr (Import [Alias ''os'' None]) ''is_target'')"
    by (simp add: Import_def)
  have h2: "\<not> (cls (ImportFrom (PStr ''typing'') [Alias ''List'' None] 0 False) = ''ImportFrom'' \<and>
                hasattr (ImportFrom (PStr ''typing'') [Alias ''List'' None] 0 False) ''is_target'')"
    by (simp add: ImportFrom_def hasattr_def getattr_def)
  show ?thesis
    using rewrite_imports_not_target [OF h1, of example_generator]
      rewrite_imports_not_target [OF h2, of example_generator]
    by (rule conjI)
qed

subsection \<open>The tree rewriter\<close>

lemma visit_items_append:
  "visit_items rw (xs @ ys) s =
     (case visit_items rw xs s of
        Inl e \<Rightarrow> Inl e
      | Inr (xs', s1, tr1) \<Rightarrow>
          (case visit_items rw ys s1 of
             Inl e \<Rightarrow> Inl e
           | Inr (ys', s2, tr2) \<Rightarrow> Inr (xs' @ ys', s2, tr1 @ tr2)))"
proof (induction xs arbitrary: s)
  case Nil
  show ?case by (simp split: sum.splits)
next
  case (Cons x xs)
  show ?case
    by (cases x) (simp_all add: Cons.IH split: sum.splits option.splits prod.splits)
qed

text \<open>
  C6. A visit that returns has run, in this order: the pre-hook registered for the
  class of the node, if any, from the state \<open>s\<close>; then nothing more when the node is
  the deletion sentinel, which is returned with no handler and no post-hook called;
  otherwise the handler registered for the class, from the state the pre-hook left, or
  the structural recursion over the children when none is registered; and last the
  post-hook registered for the class, if any, applied to the handler's result in the
  state the handler left, its result being what the visit returns. The steps \<open>tr\<close> list
  the same order.
\<close>

theorem visit_order:
  assumes "visit rw x s = Inr (r, s', tr)"
  shows "\<exists>s1 tr1.
           (case pre_hooks rw (type_name x) of
              None \<Rightarrow> s1 = s \<and> tr1 = []
            | Some hook \<Rightarrow> hook x s = Inr s1 \<and> tr1 = [PreHook (type_name x)]) \<and>
           (case x of
              None \<Rightarrow> r = REMOVE_NODE \<and> s' = s1 \<and> tr = tr1
            | Some n \<Rightarrow>
                (\<exists>r0 s2 tr2 tr3.
                   (case targets rw (cls n) of
                      Some visitor \<Rightarrow> visitor n s1 = Inr (r0, s2) \<and> tr2 = [Handler (cls n)]
                    | None \<Rightarrow>
                        (\<exists>n' trg. generic_visit rw n s1 = Inr (n', s2, trg) \<and>
                                   r0 = Some n' \<and> tr2 = Generic (cls n) # trg)) \<and>
                   (case post_hooks rw (cls n) of
                      None \<Rightarrow> r = r0 \<and> s' = s2 \<and> tr3 = []
                    | Some hook \<Rightarrow> hook r0 s2 = Inr (r, s') \<and> tr3 = [PostHook (cls n)]) \<and>
                   tr = tr1 @ tr2 @ tr3))"
proof (cases x)
  case None
  with assms show ?thesis
    by (auto simp: run_pre_hook_def type_name_def split: option.splits sum.splits)
next
  case (Some n)
  with assms show ?thesis
    by (auto simp: run_pre_hook_def run_post_hook_def type_name_def
        split: option.splits sum.splits prod.splits)
qed

text \<open>A visit of a \<^verbatim>\<open>Pass\<close> node by \<open>logging_rewriter\<close>: the state ends as
  \<open>[pre, handler, post]\<close>, and the post-hook has replaced the handler's node by the
  sentinel.\<close>

theorem visit_order_witness:
  "visit logging_rewriter (Some Pass) []
     = Inr (REMOVE_NODE, [''pre'', ''handler'', ''post''],
            [PreHook ''Pass'', Handler ''Pass'', PostHook ''Pass'']) \<and>
   (\<exists>s1 r0 s2.
      (\<lambda>x s. Inr (s @ [''pre'']) :: error + string list) (Some Pass) [] = Inr s1 \<and>
      (\<lambda>n s. Inr (Some n, s @ [''handler'']) :: error + node option \<times> string list) Pass s1
        = Inr (r0, s2) \<and>
      (\<lambda>r s. Inr (REMOVE_NODE, s @ [''post'']) :: error + node option \<times> string list) r0 s2
        = Inr (REMOVE_NODE, [''pre'', ''handler'', ''post'']))"
proof -
  have h: "visit logging_rewriter (Some Pass) []
     = Inr (REMOVE_NODE, [''pre'', ''handler'', ''post''],
            [PreHook ''Pass'', Handler ''Pass'', PostHook ''Pass''])"
    by (simp add: logging_rewriter_def Pass_def run_pre_hook_def run_post_hook_def type_name_def)
  show ?thesis
    using h visit_order [OF h]
    by (simp add: logging_rewriter_def Pass_def type_name_def)
qed



subsection \<open>The postprocess pass of the segment level\<close>

lemma postprocess_targets:
  "targets postprocess_rewriter c =
     (if c = ''Import'' \<or> c = ''ImportFrom'' then Some rewrite_class_imports else None)"
  by (simp add: postprocess_rewriter_def)

lemma postprocess_no_hooks:
  "run_pre_hook postprocess_rewriter x s = Inr (s, [])"
  "run_post_hook postprocess_rewriter c r s = Inr (r, s, [])"
  by (simp_all add: postprocess_rewriter_def run_pre_hook_def run_post_hook_def)

lemma rewrite_class_imports_plain: "cls n \<noteq> ''ImportFrom'' \<Longrightarrow> rewrite_class_imports n g = Inl TypeError"
  by (simp add: rewrite_class_imports_def)

lemma postprocess_visit_fails:
  "rw = postprocess_rewriter \<Longrightarrow> (\<forall>n. x = Some n \<longrightarrow> has_import n \<longrightarrow> (\<exists>e. visit rw x s = Inl e))"
  "rw' = postprocess_rewriter \<Longrightarrow> fields_have_import (node_fields n0) \<longrightarrow> (\<exists>e. generic_visit rw' n0 s0 = Inl e)"
  "rw'' = postprocess_rewriter \<Longrightarrow> fields_have_import fs \<longrightarrow> (\<exists>e. visit_fields rw'' fs s1 = Inl e)"
  "rw''' = postprocess_rewriter \<Longrightarrow> items_have_import xs \<longrightarrow> (\<exists>e. visit_items rw''' xs s2 = Inl e)"
proof (induction rw x s and rw' n0 s0 and rw'' fs s1 and rw''' xs s2
    rule: visit_generic_visit_visit_fields_visit_items.induct)
  case (1 rw s)
  then show ?case by simp
next
  case (2 rw n s)
  show ?case
  proof (cases n)
    case (Node c fs)
    show ?thesis
    proof (cases "c = ''Import''")
      case True
      then show ?thesis using 2(2) Node
        by (simp add: postprocess_targets postprocess_no_hooks rewrite_class_imports_plain)
    next
      case False
      show ?thesis
      proof (cases "c = ''ImportFrom''")
        case True
        then show ?thesis using Node by simp
      next
        case nif: False
        have t: "targets rw (cls n) = None" using 2(2) Node False nif by (simp add: postprocess_targets)
        have pre: "run_pre_hook rw (Some n) s = Inr (s, [])" using 2(2) by (simp add: postprocess_no_hooks)
        from 2(1)[OF pre refl t 2(2)] have "fields_have_import (node_fields n) \<longrightarrow> (\<exists>e. generic_visit rw n s = Inl e)" .
        then show ?thesis using Node False nif t pre by auto
      qed
    qed
  qed
next
  case (3 rw c fs s)
  then show ?case by auto
next
  case (4 rw s)
  then show ?case by simp
next
  case (5 rw f v fs s)
  show ?case
  proof (cases v)
    case (PList items)
    then show ?thesis using 5 by (fastforce split: sum.splits)
  next
    case (PNode n)
    then show ?thesis using 5 by (fastforce split: sum.splits)
  qed (use 5 in \<open>fastforce split: sum.splits\<close>)+
next
  case (6 rw s)
  then show ?case by simp
next
  case (7 rw x xs s)
  show ?case
  proof (cases x)
    case (PNode n)
    then show ?thesis using 7 by (fastforce split: sum.splits)
  qed (use 7 in \<open>fastforce split: sum.splits\<close>)+
qed

text \<open>
  C10. The handler of the postprocess pass, registered for \<^verbatim>\<open>Import\<close> as for
  \<^verbatim>\<open>ImportFrom\<close>, raises on every node that is no \<^verbatim>\<open>ImportFrom\<close>: it executes
  \<^verbatim>\<open>raise NotImplemented\<close>, a \<^verbatim>\<open>TypeError\<close>. So when the tree of the current file holds a
  plain \<^verbatim>\<open>import\<close> statement, \<^verbatim>\<open>_postprocess\<close> ends in an exception: the import is
  neither stripped nor passed through. (The exception is that of the first node at which
  the handler raises: the plain import, or a \<^verbatim>\<open>from\<close> import before it, where the
  handler fails when \<^verbatim>\<open>base_parsers\<close> was never assigned.)
\<close>

theorem postprocess_fails_on_plain_import:
  assumes "cur_parser g = Some fl" and "map_of (parsers g) fl = Some p" and "has_import (ast p)"
  shows "(\<exists>e. Segment_postprocess g = Inl e) \<and>
         targets postprocess_rewriter ''Import'' = Some rewrite_class_imports \<and>
         rewrite_class_imports (Node ''Import'' fs) g' = Inl TypeError"
proof -
  from postprocess_visit_fails(1)[OF refl, of "Some (ast p)" g] assms(3)
  obtain e where "visit postprocess_rewriter (Some (ast p)) g = Inl e" by blast
  then have "Segment_postprocess g = Inl e"
    using assms(1,2) by (simp add: Segment_postprocess_def)
  then show ?thesis
    by (simp add: postprocess_targets rewrite_class_imports_plain)
qed

text \<open>Postprocessing a file that starts with \<^verbatim>\<open>import os\<close>.\<close>

theorem postprocess_fails_on_plain_import_witness:
  "cur_parser tool_state = Some ''/src/tool.py'' \<and>
   map_of (parsers tool_state) ''/src/tool.py'' = Some tool_py \<and>
   has_import (ast tool_py) \<and>
   Segment_postprocess tool_state = Inl TypeError"
proof -
  have h1: "cur_parser tool_state = Some ''/src/tool.py''" by (simp add: tool_state_def)
  have h2: "map_of (parsers tool_state) ''/src/tool.py'' = Some tool_py" by (simp add: tool_state_def)
  have h3: "has_import (ast tool_py)" by (simp add: tool_py_def Module_def Import_def)
  have e: "Segment_postprocess tool_state = Inl TypeError"
    by (simp add: Segment_postprocess_def tool_state_def tool_py_def Module_def Import_def
        postprocess_rewriter_def run_pre_hook_def run_post_hook_def type_name_def
        rewrite_class_imports_def)
  show ?thesis
    using h1 h2 h3 e postprocess_fails_on_plain_import [OF h1 h2 h3] by simp
qed

subsection \<open>File-level generation\<close>

lemma file_level_targets:
  "targets (FileLevel_build_rewriter None) c =
     (if c = ''Import'' \<or> c = ''ImportFrom'' then Some rewrite_imports else None)"
  by (simp add: FileLevel_build_rewriter_def)

lemma file_level_no_hooks:
  "run_pre_hook (FileLevel_build_rewriter None) x s = Inr (s, [])"
  "run_post_hook (FileLevel_build_rewriter None) c r s = Inr (r, s, [])"
  by (simp_all add: FileLevel_build_rewriter_def run_pre_hook_def run_post_hook_def)

lemma filter_set_field:
  "a = ''module'' \<or> a = ''level'' \<Longrightarrow>
   filter (\<lambda>f. fname f \<noteq> ''module'' \<and> fname f \<noteq> ''level'') (set_field fs a v)
     = filter (\<lambda>f. fname f \<noteq> ''module'' \<and> fname f \<noteq> ''level'') fs"
  by (induction fs a v rule: set_field.induct) auto

lemma strip_imports_setattr:
  "cls n = ''ImportFrom'' \<Longrightarrow> a = ''module'' \<or> a = ''level'' \<Longrightarrow>
   strip_imports (setattr n a v) = strip_imports n"
  by (cases n) (simp add: setattr_def filter_set_field)

lemma rewrite_imports_strip:
  assumes "rewrite_imports n g = Inr (r, g')"
  shows "g' = g \<and> (\<exists>n'. r = Some n' \<and> cls n' = cls n \<and> strip_imports n' = strip_imports n)"
proof (cases "cls n = ''ImportFrom'' \<and> hasattr n ''is_target''")
  case False
  with assms show ?thesis by (auto simp: rewrite_imports_def)
next
  case True
  with assms show ?thesis
    by (auto simp: rewrite_imports_def strip_imports_setattr cls_setattr
        split: option.splits pyval.splits)
qed

lemma strip_imports_Node: "c \<noteq> ''ImportFrom'' \<Longrightarrow> strip_imports (Node c fs) = Node c (strip_fields fs)"
  by simp

lemma file_level_visit_strip:
  "rw = FileLevel_build_rewriter None \<Longrightarrow>
     (\<forall>r s' tr. visit rw x s = Inr (r, s', tr) \<longrightarrow>
        s' = s \<and> (case x of
                     None \<Rightarrow> r = None
                   | Some n \<Rightarrow> (\<exists>n'. r = Some n' \<and> cls n' = cls n \<and>
                                      strip_imports n' = strip_imports n)))"
  "rw' = FileLevel_build_rewriter None \<Longrightarrow>
     (\<forall>n0' s0' tr0. generic_visit rw' n0 s0 = Inr (n0', s0', tr0) \<longrightarrow>
        s0' = s0 \<and> cls n0' = cls n0 \<and>
        strip_fields (node_fields n0') = strip_fields (node_fields n0))"
  "rw'' = FileLevel_build_rewriter None \<Longrightarrow>
     (\<forall>fs' s1' tr1. visit_fields rw'' fs s1 = Inr (fs', s1', tr1) \<longrightarrow>
        s1' = s1 \<and> strip_fields fs' = strip_fields fs)"
  "rw''' = FileLevel_build_rewriter None \<Longrightarrow>
     (\<forall>xs' s2' tr2. visit_items rw''' xs s2 = Inr (xs', s2', tr2) \<longrightarrow>
        s2' = s2 \<and> strip_items xs' = strip_items xs)"
proof (induction rw x s and rw' n0 s0 and rw'' fs s1 and rw''' xs s2
    rule: visit_generic_visit_visit_fields_visit_items.induct)
  case (1 rw s)
  then show ?case by (simp add: file_level_no_hooks)
next
  case (2 rw n s)
  note rw = 2(2)
  have pre: "run_pre_hook rw (Some n) s = Inr (s, [])" using rw by (simp add: file_level_no_hooks)
  show ?case
  proof (cases "cls n = ''Import'' \<or> cls n = ''ImportFrom''")
    case True
    then have t: "targets rw (cls n) = Some rewrite_imports" using rw by (simp add: file_level_targets)
    show ?thesis
    proof (intro allI impI)
      fix r s' tr
      assume v: "visit rw (Some n) s = Inr (r, s', tr)"
      then have "rewrite_imports n s = Inr (r, s')"
        using pre t rw by (simp add: file_level_no_hooks split: sum.splits prod.splits)
      from rewrite_imports_strip[OF this]
      show "s' = s \<and> (case Some n of None \<Rightarrow> r = None
          | Some n \<Rightarrow> \<exists>n'. r = Some n' \<and> cls n' = cls n \<and> strip_imports n' = strip_imports n)"
        by simp
    qed
  next
    case False
    then have t: "targets rw (cls n) = None" using rw by (simp add: file_level_targets)
    note IH = 2(1)[OF pre refl t rw]
    obtain c fs where n: "n = Node c fs" by (cases n)
    show ?thesis
    proof (intro allI impI)
      fix r s' tr
      assume v: "visit rw (Some n) s = Inr (r, s', tr)"
      then obtain n' tr2 where g: "generic_visit rw n s = Inr (n', s', tr2)" and r: "r = Some n'"
        using pre t rw by (simp add: file_level_no_hooks split: sum.splits prod.splits)
      from IH g have a: "s' = s" "cls n' = cls n" "strip_fields (node_fields n') = strip_fields (node_fields n)"
        by auto
      obtain c' fs' where n': "n' = Node c' fs'" by (cases n')
      have "strip_imports n' = strip_imports n" using a n n' False by simp
      then show "s' = s \<and> (case Some n of None \<Rightarrow> r = None
          | Some n \<Rightarrow> \<exists>n'. r = Some n' \<and> cls n' = cls n \<and> strip_imports n' = strip_imports n)"
        using a r by simp
    qed
  qed
next
  case (3 rw c fs s)
  show ?case
  proof (intro allI impI)
    fix n0' s0' tr0
    assume v: "generic_visit rw (Node c fs) s = Inr (n0', s0', tr0)"
    then obtain fs' where a: "visit_fields rw fs s = Inr (fs', s0', tr0)" and b: "n0' = Node c fs'"
      by (simp split: sum.splits prod.splits)
    from 3(1)[OF 3(2)] a have "s0' = s" "strip_fields fs' = strip_fields fs" by simp_all
    then show "s0' = s \<and> cls n0' = cls (Node c fs) \<and>
       strip_fields (node_fields n0') = strip_fields (node_fields (Node c fs))"
      using b by simp
  qed
next
  case (4 rw s)
  then show ?case by simp
next
  case (5 rw f v fs s)
  note rw = 5(9)
  have other: "\<forall>fs' s1' tr1. visit_fields rw fs s = Inr (fs', s1', tr1) \<longrightarrow>
                 s1' = s \<and> strip_fields fs' = strip_fields fs"
    if "\<forall>n. v \<noteq> PNode n" "\<forall>items. v \<noteq> PList items"
    using that 5(1)[OF _ rw] 5(2)[OF _ rw] 5(3)[OF _ rw] 5(4)[OF _ rw] by (cases v) simp_all
  show ?case
  proof (intro allI impI)
    fix fs' s1' tr1
    assume v: "visit_fields rw (Field f v # fs) s = Inr (fs', s1', tr1)"
    show "s1' = s \<and> strip_fields fs' = strip_fields (Field f v # fs)"
    proof (cases v)
      case (PList items)
      from v PList obtain nv sa tra fsb trb where
        a: "visit_items rw items s = Inr (nv, sa, tra)" and
        b: "visit_fields rw fs sa = Inr (fsb, s1', trb)" and
        c: "fs' = Field f (PList nv) # fsb"
        by (simp split: sum.splits prod.splits)
      from 5(7)[OF PList rw] a have a': "sa = s" "strip_items nv = strip_items items" by simp_all
      from 5(8)[OF PList a refl refl rw] b have "s1' = sa" "strip_fields fsb = strip_fields fs"
        by simp_all
      then show ?thesis using a' c PList by simp
    next
      case (PNode n)
      from v PNode obtain r sa tra fsb trb where
        a: "visit rw (Some n) s = Inr (r, sa, tra)" and
        b: "visit_fields rw fs sa = Inr (fsb, s1', trb)" and
        c: "fs' = (case r of None \<Rightarrow> fsb | Some n' \<Rightarrow> Field f (PNode n') # fsb)"
        by (simp split: sum.splits prod.splits)
      from 5(5)[OF PNode rw] a obtain n' where
        a': "sa = s" "r = Some n'" "strip_imports n' = strip_imports n"
        by auto
      from 5(6)[OF PNode a refl refl rw] b have "s1' = sa" "strip_fields fsb = strip_fields fs"
        by simp_all
      then show ?thesis using a' c PNode by simp
    next
      case PNone
      with v obtain fsb where
        b: "visit_fields rw fs s = Inr (fsb, s1', tr1)" and c: "fs' = Field f v # fsb"
        by (simp split: sum.splits prod.splits)
      from other b PNone have "s1' = s" "strip_fields fsb = strip_fields fs" by simp_all
      then show ?thesis using c PNone by simp
    next
      case (PBool x)
      with v obtain fsb where
        b: "visit_fields rw fs s = Inr (fsb, s1', tr1)" and c: "fs' = Field f v # fsb"
        by (simp split: sum.splits prod.splits)
      from other b PBool have "s1' = s" "strip_fields fsb = strip_fields fs" by simp_all
      then show ?thesis using c PBool by simp
    next
      case (PInt x)
      with v obtain fsb where
        b: "visit_fields rw fs s = Inr (fsb, s1', tr1)" and c: "fs' = Field f v # fsb"
        by (simp split: sum.splits prod.splits)
      from other b PInt have "s1' = s" "strip_fields fsb = strip_fields fs" by simp_all
      then show ?thesis using c PInt by simp
    next
      case (PStr x)
      with v obtain fsb where
        b: "visit_fields rw fs s = Inr (fsb, s1', tr1)" and c: "fs' = Field f v # fsb"
        by (simp split: sum.splits prod.splits)
      from other b PStr have "s1' = s" "strip_fields fsb = strip_fields fs" by simp_all
      then show ?thesis using c PStr by simp
    qed
  qed
next
  case (6 rw s)
  then show ?case by simp
next
  case (7 rw x xs s)
  note rw = 7(8)
  have other: "\<forall>xs' s2' tr2. visit_items rw xs s = Inr (xs', s2', tr2) \<longrightarrow>
                 s2' = s \<and> strip_items xs' = strip_items xs"
    if "\<forall>n. x \<noteq> PNode n"
    using that 7(1)[OF _ rw] 7(2)[OF _ rw] 7(3)[OF _ rw] 7(4)[OF _ rw] 7(7)[OF _ rw]
    by (cases x) simp_all
  show ?case
  proof (intro allI impI)
    fix xs' s2' tr2
    assume v: "visit_items rw (x # xs) s = Inr (xs', s2', tr2)"
    show "s2' = s \<and> strip_items xs' = strip_items (x # xs)"
    proof (cases "\<exists>n. x = PNode n")
      case True
      then obtain n where x: "x = PNode n" by blast
      from v x obtain r sa tra nv trb where
        a: "visit rw (Some n) s = Inr (r, sa, tra)" and
        b: "visit_items rw xs sa = Inr (nv, s2', trb)" and
        c: "xs' = (case r of None \<Rightarrow> nv | Some n' \<Rightarrow> PNode n' # nv)"
        by (simp split: sum.splits prod.splits)
      from 7(5)[OF x rw] a obtain n' where
        a': "sa = s" "r = Some n'" "strip_imports n' = strip_imports n"
        by auto
      from 7(6)[OF x a refl refl rw] b have "s2' = sa" "strip_items nv = strip_items xs"
        by simp_all
      then show ?thesis using a' c x by simp
    next
      case False
      with v obtain nv where
        b: "visit_items rw xs s = Inr (nv, s2', tr2)" and c: "xs' = x # nv"
        by (cases x) (simp_all split: sum.splits prod.splits)
      from False other b have "s2' = s" "strip_items nv = strip_items xs" by simp_all
      then show ?thesis using c False by (cases x) simp_all
    qed
  qed
qed

lemma strip_imports_id:
  "\<not> has_import_from n \<Longrightarrow> strip_imports n = n"
  "\<not> fields_have_import_from fs \<Longrightarrow> strip_fields fs = fs"
  "\<not> items_have_import_from xs \<Longrightarrow> strip_items xs = xs"
  by (induction n and fs and xs rule: has_import_from_fields_have_import_from_items_have_import_from.induct)
     (auto split: pyval.splits)

lemma has_import_from_strip:
  "has_import_from (strip_imports n) = has_import_from n"
  "fields_have_import_from (strip_fields fs) = fields_have_import_from fs"
  "items_have_import_from (strip_items xs) = items_have_import_from xs"
  by (induction n and fs and xs rule: has_import_from_fields_have_import_from_items_have_import_from.induct)
     (auto split: pyval.splits)

lemma strip_imports_eq_unchanged:
  assumes "strip_imports d' = strip_imports d" and "\<not> has_import_from d"
  shows "d' = d"
proof -
  have "has_import_from d' = has_import_from d"
    using assms(1) has_import_from_strip(1)[of d'] has_import_from_strip(1)[of d] by simp
  then have "strip_imports d' = d'" using assms(2) by (simp add: strip_imports_id)
  then show ?thesis using assms by (simp add: strip_imports_id)
qed

lemma cls_strip_imports: "cls (strip_imports n) = cls n"
  by (cases n) simp

lemma defs_in_strip_items: "defs_in (strip_items xs) = map strip_imports (defs_in xs)"
  by (induction xs) (auto simp: cls_strip_imports split: pyval.splits)

lemma find_field_strip_fields:
  "find_field (strip_fields fs) a =
     map_option (\<lambda>v. case v of
                       PList items \<Rightarrow> PList (strip_items items)
                     | PNode n \<Rightarrow> PNode (strip_imports n)
                     | _ \<Rightarrow> v) (find_field fs a)"
  by (induction fs a rule: find_field.induct) simp_all

lemma strip_body:
  assumes "strip_fields fs' = strip_fields fs" and "find_field fs a = Some (PList body)"
  shows "\<exists>body'. find_field fs' a = Some (PList body') \<and> strip_items body' = strip_items body"
proof -
  have "find_field (strip_fields fs') a = Some (PList (strip_items body))"
    using assms by (simp add: find_field_strip_fields)
  then obtain v where v: "find_field fs' a = Some v"
    and e: "(case v of PList items \<Rightarrow> PList (strip_items items)
             | PNode n \<Rightarrow> PNode (strip_imports n) | _ \<Rightarrow> v) = PList (strip_items body)"
    by (auto simp: find_field_strip_fields)
  from e obtain body' where "v = PList body'" "strip_items body' = strip_items body"
    by (cases v) simp_all
  with v show ?thesis by simp
qed

lemma map_of_update_parser:
  "map_of (parsers (update_parser fl f g)) k =
     (if k = fl then map_option f (map_of (parsers g) k) else map_of (parsers g) k)"
proof -
  have "map_of (map (\<lambda>(k, p). if k = fl then (k, f p) else (k, p)) ps) k =
        (if k = fl then map_option f (map_of ps k) else map_of ps k)" for ps
    by (induction ps) auto
  then show ?thesis by (simp add: update_parser_def)
qed

lemma map_eq_list_all2: "map f xs = map f ys \<Longrightarrow> list_all2 (\<lambda>x y. f x = f y) xs ys"
proof (induction xs arbitrary: ys)
  case Nil
  then show ?case by simp
next
  case (Cons x xs)
  then show ?case by (cases ys) auto
qed

text \<open>
  C8. At file level, what \<^verbatim>\<open>generate\<close> does to a file before writing it
  (\<^verbatim>\<open>_preprocess\<close>, the rewriter with the generator's own handlers, \<^verbatim>\<open>_postprocess\<close>)
  leaves the file's tree as it was up to the module and level of its \<^verbatim>\<open>from ... import\<close>
  statements. The top-level function and class definitions of the module are the same
  in number and order, each equal to the original up to such statements inside it, and
  identical to the original when it holds none: no definition is deleted or changed.
\<close>

theorem file_level_never_prunes:
  assumes p: "map_of (parsers g) fl = Some parser"
    and rf: "rewrite_file FileLevel (FileLevel_build_rewriter None) fl parser g = Inr g'"
    and m: "cls (ast parser) = ''Module''"
    and b: "getattr (ast parser) ''body'' = Some (PList body)"
  shows "\<exists>parser' body'.
           map_of (parsers g') fl = Some parser' \<and>
           strip_imports (ast parser') = strip_imports (ast parser) \<and>
           getattr (ast parser') ''body'' = Some (PList body') \<and>
           list_all2 (\<lambda>d' d. strip_imports d' = strip_imports d \<and>
                              (\<not> has_import_from d \<longrightarrow> d' = d))
                     (defs_in body') (defs_in body)"
proof -
  let ?rw = "FileLevel_build_rewriter None"
  from rf obtain r g2 tr where
    v: "visit ?rw (Some (ast parser)) g = Inr (r, g2, tr)" and g': "g' = store_ast fl r g2"
    by (auto simp: rewrite_file_def preprocess_def postprocess_def split: sum.splits)
  from file_level_visit_strip(1)[OF refl, of "Some (ast parser)" g] v obtain t' where
    t: "g2 = g" "r = Some t'" "strip_imports t' = strip_imports (ast parser)"
    by auto
  have p': "map_of (parsers g') fl = Some (parser\<lparr>ast := t'\<rparr>)"
    using g' t p by (simp add: store_ast_def map_of_update_parser)
  obtain c fs where n: "ast parser = Node c fs" by (cases "ast parser")
  obtain c' fs' where n': "t' = Node c' fs'" by (cases t')
  from t(3) n n' m have sf: "strip_fields fs' = strip_fields fs" by (auto split: if_splits)
  from b n have "find_field fs ''body'' = Some (PList body)" by (simp add: getattr_def)
  from strip_body[OF sf this] obtain body' where
    b': "find_field fs' ''body'' = Some (PList body')" "strip_items body' = strip_items body"
    by blast
  have "map strip_imports (defs_in body') = map strip_imports (defs_in body)"
    using b'(2) defs_in_strip_items[of body'] defs_in_strip_items[of body] by simp
  then have "list_all2 (\<lambda>d' d. strip_imports d' = strip_imports d) (defs_in body') (defs_in body)"
    by (rule map_eq_list_all2)
  then have "list_all2 (\<lambda>d' d. strip_imports d' = strip_imports d \<and>
                              (\<not> has_import_from d \<longrightarrow> d' = d))
                     (defs_in body') (defs_in body)"
    by (rule list_all2_mono) (auto intro: strip_imports_eq_unchanged)
  then show ?thesis using p' t(3) b'(1) n' by (auto simp: getattr_def)
qed

text \<open>\<^verbatim>\<open>main.py\<close> of the corpus: the import is rewritten to \<^verbatim>\<open>from a import helper\<close>,
  the definition of \<^verbatim>\<open>main\<close> stays.\<close>

theorem file_level_never_prunes_witness:
  "map_of (parsers corpus_generator) ''/src/main.py'' = Some main_py \<and>
   rewrite_file FileLevel (FileLevel_build_rewriter None) ''/src/main.py'' main_py corpus_generator
     = Inr (store_ast ''/src/main.py''
              (Some (Module [ImportFrom (PStr ''a'') [Alias ''helper'' None] 0 True,
                             FunctionDef ''main'' [Pass]]))
              corpus_generator) \<and>
   (\<exists>parser' body'.
      map_of (parsers (store_ast ''/src/main.py''
              (Some (Module [ImportFrom (PStr ''a'') [Alias ''helper'' None] 0 True,
                             FunctionDef ''main'' [Pass]]))
              corpus_generator)) ''/src/main.py'' = Some parser' \<and>
      getattr (ast parser') ''body'' = Some (PList body') \<and>
      defs_in body' = [FunctionDef ''main'' [Pass]])"
proof -
  let ?t' = "Module [ImportFrom (PStr ''a'') [Alias ''helper'' None] 0 True,
                     FunctionDef ''main'' [Pass]]"
  let ?body = "[PNode (ImportFrom (PStr ''pkg.a'') [Alias ''helper'' None] 0 True),
                PNode (FunctionDef ''main'' [Pass])]"
  have p: "map_of (parsers corpus_generator) ''/src/main.py'' = Some main_py"
    by (simp add: corpus_generator_def)
  have rf: "rewrite_file FileLevel (FileLevel_build_rewriter None) ''/src/main.py'' main_py
              corpus_generator = Inr (store_ast ''/src/main.py'' (Some ?t') corpus_generator)"
    by (simp add: rewrite_file_def preprocess_def postprocess_def main_py_def Module_def
        ImportFrom_def FunctionDef_def Pass_def Alias_def FileLevel_build_rewriter_def
        run_pre_hook_def run_post_hook_def type_name_def rewrite_imports_def getattr_def
        hasattr_def setattr_def corpus_generator_def)
  have m: "cls (ast main_py) = ''Module''" by (simp add: main_py_def Module_def)
  have b: "getattr (ast main_py) ''body'' = Some (PList ?body)"
    by (simp add: main_py_def Module_def getattr_def)
  have d: "defs_in ?body = [FunctionDef ''main'' [Pass]]"
    by (simp add: ImportFrom_def FunctionDef_def)
  have nf: "\<not> has_import_from (FunctionDef ''main'' [Pass])"
    by (simp add: FunctionDef_def Pass_def)
  from file_level_never_prunes [OF p rf m b] obtain parser' body' where
    r: "map_of (parsers (store_ast ''/src/main.py'' (Some ?t') corpus_generator)) ''/src/main.py''
          = Some parser'"
       "getattr (ast parser') ''body'' = Some (PList body')"
       "list_all2 (\<lambda>d' d. strip_imports d' = strip_imports d \<and>
                              (\<not> has_import_from d \<longrightarrow> d' = d))
                     (defs_in body') (defs_in ?body)"
    by blast
  from r(3) d nf have "defs_in body' = [FunctionDef ''main'' [Pass]]"
    by (auto simp: list_all2_Cons2)
  with r p rf show ?thesis by blast
qed

subsection \<open>Pruning at segment level\<close>


























text \<open>The corpus above: of \<^verbatim>\<open>a.py\<close>, \<^verbatim>\<open>helper\<close> is imported by \<^verbatim>\<open>main.py\<close> and
  \<^verbatim>\<open>local_fn\<close> is called in the file; \<^verbatim>\<open>unused\<close> is deleted.\<close>

lemma corpus_generator_init:
  "CodeGenerator_init SegmentLevel ''out'' corpus None None = Inr corpus_generator"
  by (simp add: CodeGenerator_init_def corpus_generator_def corpus_def get_imports_info_def
      dict_get_default_def)


subsection \<open>Class merging\<close>

text \<open>The two cases of one base class: \<^verbatim>\<open>Single(B1)\<close>, which has no \<^verbatim>\<open>method1\<close>, gets
  the one of \<^verbatim>\<open>B1\<close>, once; \<^verbatim>\<open>Override(B1)\<close> keeps its own \<^verbatim>\<open>method1\<close> and gets no
  other.\<close>

lemma merge_single_base_copies_once:
  "\<exists>cm cm'. ClassMerging_init child_py [(''B1'', bases_py)] (PStr ''Single'') = Inr cm \<and>
     merge cm = Inr cm' \<and>
     getattr (cls_node cm') ''body''
       = Some (PList [PNode (FunctionDef ''own'' [Pass]), PNode B1_method1])"
  by (simp add: ClassMerging_init_def merge_def child_py_def bases_py_def ex_nodes rw_simps
      ClassMerging_rewriter_def merge_methods_def rewrite_name_def)

lemma merge_keeps_override:
  "\<exists>cm cm'. ClassMerging_init child_py [(''B1'', bases_py)] (PStr ''Override'') = Inr cm \<and>
     merge cm = Inr cm' \<and>
     getattr (cls_node cm') ''body'' = Some (PList [PNode own_method1])"
  by (simp add: ClassMerging_init_def merge_def child_py_def bases_py_def ex_nodes rw_simps
      ClassMerging_rewriter_def merge_methods_def rewrite_name_def)

text \<open>
  C2. The claim asks that a name already copied from an earlier base is not copied again
  from a later one. \<^verbatim>\<open>_merge_methods\<close> tests the name against \<^verbatim>\<open>self.methods\<close>, which
  the constructor computes once from the class as it was and which no copy updates. For
  \<^verbatim>\<open>Child(B1, B2)\<close>, where both bases define \<^verbatim>\<open>method1\<close> and \<^verbatim>\<open>Child\<close> does not,
  the merged body therefore holds \<^verbatim>\<open>method1\<close> twice, the one of \<^verbatim>\<open>B1\<close> and after it
  the one of \<^verbatim>\<open>B2\<close>.
\<close>

theorem merge_two_bases_duplicates_method:
  "\<exists>cm cm'. ClassMerging_init child_py [(''B1'', bases_py), (''B2'', bases_py)] (PStr ''Child'') = Inr cm \<and>
     merge cm = Inr cm' \<and>
     getattr (cls_node cm') ''body''
       = Some (PList [PNode (FunctionDef ''own'' [Pass]), PNode B1_method1, PNode B2_method1])"
  by (simp add: ClassMerging_init_def merge_def child_py_def bases_py_def ex_nodes rw_simps
      ClassMerging_rewriter_def merge_methods_def rewrite_name_def)

subsection \<open>The loop of generate\<close>

text \<open>One turn of the loop for a file whose rewriting returns: the file written is
  \<open>CODEGEN_PREFIX\<close> followed by the printed tree of the parser, as the rewriting left
  it.\<close>

lemma generate_loop_writes:
  assumes "map_of (parsers g) fl = Some parser"
    and "basename (file_name parser) \<noteq> ''__init__.py''"
    and "rewrite_file lv rw fl parser g = Inr g'"
    and "map_of (parsers g') fl = Some parser'"
  shows "generate_loop to_source lv rw (fl # rest) g fs =
           generate_loop to_source lv rw rest g'
             (fs(join (target_dir g') (basename (file_name parser'))
                   \<mapsto> CODEGEN_PREFIX @ to_source (ast parser')))"
  using assms by (simp add: generate_from_ast_def)

text \<open>\<^verbatim>\<open>generate_init\<close> and \<^verbatim>\<open>copy_file\<close> refuse to write over a file unless forced.
  \<^verbatim>\<open>generate\<close> calls neither.\<close>

lemma generate_init_refuses_existing:
  "is_file_exist fs target_path ''__init__.py'' \<Longrightarrow>
   generate_init target_path False fs = Inl (RuntimeError ''__init__.py exists!'')"
  by (simp add: generate_init_def)

lemma generate_init_forced:
  "generate_init target_path True fs
     = Inr (fs(join target_path ''__init__.py'' \<mapsto> CODEGEN_PREFIX))"
  by (simp add: generate_init_def generate_from_str_def)

lemma copy_file_refuses_existing:
  "is_file_exist fs dir (basename source_file) \<Longrightarrow>
   copy_file source_file dir False fs = Inl (RuntimeError (source_file @ '' exists!''))"
  by (simp add: copy_file_def)

text \<open>
  C4. The claim asks that generation raises a "target exists" error for an output file
  that is already in the output directory, and writes nothing to it. \<^verbatim>\<open>generate\<close> has
  no force flag and makes no such test; \<^verbatim>\<open>_generate_from_ast\<close> opens the file for
  writing. With \<^verbatim>\<open>out/a.py\<close> present, a file-level run over the corpus ends without an
  error and has replaced the text of \<^verbatim>\<open>out/a.py\<close>.
\<close>

theorem generate_overwrites_existing_file:
  "generate to_source FileLevel (FileLevel_build_rewriter None) corpus_generator
     [''out/a.py'' \<mapsto> ''edited by hand'']
   = Inr (store_ast ''/src/main.py''
            (Some (Module [ImportFrom (PStr ''a'') [Alias ''helper'' None] 0 True,
                           FunctionDef ''main'' [Pass]])) corpus_generator,
          [''out/a.py'' \<mapsto> CODEGEN_PREFIX @ to_source (ast a_py),
           ''out/main.py'' \<mapsto> CODEGEN_PREFIX @
              to_source (Module [ImportFrom (PStr ''a'') [Alias ''helper'' None] 0 True,
                                 FunctionDef ''main'' [Pass]])])"
  by (simp add: file_level_simps corpus_generator_def a_py_def main_py_def ex_nodes rw_simps
      fun_upd_twist)

lemma generate_loop_append:
  "generate_loop to_source lv rw (xs @ ys) g fs =
     (case generate_loop to_source lv rw xs g fs of
        Inl failed \<Rightarrow> Inl failed
      | Inr (g1, fs1) \<Rightarrow> generate_loop to_source lv rw ys g1 fs1)"
proof (induction xs arbitrary: g fs)
  case Nil
  then show ?case by simp
next
  case (Cons x xs)
  show ?case
    by (simp add: Cons.IH split: option.splits sum.splits)
qed

lemma visit_items_child_raises:
  assumes "visit_items rw xs s = Inr (xs', s1, tr1)" and "visit rw (Some n) s1 = Inl e"
  shows "visit_items rw (xs @ PNode n # ys) s = Inl e"
  using assms by (simp add: visit_items_append)

text \<open>
  C5, as amended. A handler that raises at a node makes the visit of that node raise:
  the rewriter catches nothing. And when the rewriting of a file's tree raises,
  \<^verbatim>\<open>generate\<close> ends there with that exception: the files before it in the run have
  been written, the file itself is not written, and no file after it is processed.
\<close>

theorem handler_failure_aborts_run:
  assumes before: "generate_loop to_source lv rw before g fs = Inr (g1, fs1)"
    and p: "map_of (parsers g1) fl = Some parser"
    and ni: "basename (file_name parser) \<noteq> ''__init__.py''"
    and pre: "preprocess lv fl parser g1 = Inr g2"
    and pre_hook: "run_pre_hook rw (Some n) s = Inr (s1, tr1)"
    and h: "targets rw (cls n) = Some visitor"
    and raises: "visitor n s1 = Inl e"
    and tree: "visit rw (Some (ast parser)) g2 = Inl e"
  shows "visit rw (Some n) s = Inl e \<and>
         generate_loop to_source lv rw (before @ fl # rest) g fs = Inl (e, fs1)"
proof -
  have "visit rw (Some n) s = Inl e" using pre_hook h raises by simp
  moreover have "rewrite_file lv rw fl parser g1 = Inl e"
    using pre tree by (simp add: rewrite_file_def)
  then have "generate_loop to_source lv rw (fl # rest) g1 fs1 = Inl (e, fs1)"
    using p ni by simp
  then have "generate_loop to_source lv rw (before @ fl # rest) g fs = Inl (e, fs1)"
    using before by (simp add: generate_loop_append)
  ultimately show ?thesis by simp
qed

text \<open>A run over \<^verbatim>\<open>a.py\<close>, \<^verbatim>\<open>main.py\<close> and \<^verbatim>\<open>tool.py\<close> with a handler that raises
  at the \<^verbatim>\<open>from\<close> import of \<^verbatim>\<open>main.py\<close>: \<^verbatim>\<open>a.py\<close> is written, and the run ends with
  the exception.\<close>

theorem handler_failure_aborts_run_witness:
  "generate_loop print_class FileLevel failing_rewriter [''/src/a.py''] three_files Map.empty
     = Inr (three_files, [''out/a.py'' \<mapsto> CODEGEN_PREFIX @ ''Module'']) \<and>
   visit failing_rewriter (Some (ast main_py)) three_files = Inl (Raised ''handler failed'') \<and>
   generate_loop print_class FileLevel failing_rewriter
       [''/src/a.py'', ''/src/main.py'', ''/src/tool.py''] three_files Map.empty
     = Inl (Raised ''handler failed'', [''out/a.py'' \<mapsto> CODEGEN_PREFIX @ ''Module''])"
proof -
  let ?n = "ImportFrom (PStr ''pkg.a'') [Alias ''helper'' None] 0 True"
  let ?e = "Raised ''handler failed''"
  have before: "generate_loop print_class FileLevel failing_rewriter [''/src/a.py''] three_files
                  Map.empty
                = Inr (three_files, [''out/a.py'' \<mapsto> CODEGEN_PREFIX @ ''Module''])"
    by (simp add: file_level_simps failing_rewriter_def three_files_def a_py_def main_py_def
        tool_py_def ex_nodes rw_simps print_class_def)
  have p: "map_of (parsers three_files) ''/src/main.py'' = Some main_py"
    by (simp add: three_files_def)
  have ni: "basename (file_name main_py) \<noteq> ''__init__.py''"
    by (simp add: main_py_def basename_def)
  have pre: "preprocess FileLevel ''/src/main.py'' main_py three_files = Inr three_files"
    by (simp add: preprocess_def)
  have pre_hook: "run_pre_hook failing_rewriter (Some ?n) three_files = Inr (three_files, [])"
    by (simp add: failing_rewriter_def FileLevel_build_rewriter_def run_pre_hook_def)
  have h: "targets failing_rewriter (cls ?n) = Some failing_handler"
    by (simp add: failing_rewriter_def FileLevel_build_rewriter_def ImportFrom_def)
  have raises: "failing_handler ?n three_files = Inl ?e"
    by (simp add: failing_handler_def)
  have tree: "visit failing_rewriter (Some (ast main_py)) three_files = Inl ?e"
    by (simp add: failing_rewriter_def FileLevel_build_rewriter_def main_py_def ex_nodes rw_simps
        failing_handler_def)
  show ?thesis
    using before tree
      handler_failure_aborts_run [OF before p ni pre pre_hook h raises tree, of "[''/src/tool.py'']"]
    by simp
qed

text \<open>C5 as the claim states it fails on that run: \<^verbatim>\<open>tool.py\<close>, which comes after the
  failing file and is written when it is generated alone, is not written.\<close>

theorem remaining_files_not_emitted_counterexample:
  "generate print_class FileLevel failing_rewriter three_files Map.empty
     = Inl (Raised ''handler failed'', [''out/a.py'' \<mapsto> CODEGEN_PREFIX @ ''Module'']) \<and>
   [''out/a.py'' \<mapsto> CODEGEN_PREFIX @ ''Module''] ''out/tool.py'' = None \<and>
   (case generate print_class FileLevel failing_rewriter
            (three_files\<lparr>parsers := [(''/src/tool.py'', tool_py)]\<rparr>) Map.empty of
      Inl failed \<Rightarrow> None
    | Inr (g, fs) \<Rightarrow> fs ''out/tool.py'')
     = Some (CODEGEN_PREFIX @ ''Module'')"
  by (simp add: file_level_simps failing_rewriter_def three_files_def a_py_def main_py_def
      tool_py_def ex_nodes rw_simps print_class_def failing_handler_def)

end
